theory Spec2Isabelle
  imports Main
begin

unbundle bit_operations_syntax

section \<open>JavaScript numbers and bitwise operators\<close>

text \<open>
  The sources are TypeScript.  A \<open>number\<close> is an IEEE double; every number this
  development follows is an integer, so it is an \<open>int\<close>.  The bitwise operators
  first convert their operands with ToInt32 (reduction modulo \<open>2^32\<close> into
  \<open>-2^31 .. 2^31 - 1\<close>) and take the shift count modulo 32.  Storing into a
  \<open>Uint8Array\<close> keeps the value modulo 256.
\<close>

definition toInt32 :: "int \<Rightarrow> int" where
  "toInt32 x = (x + 2147483648) mod 4294967296 - 2147483648"

definition toUint8 :: "int \<Rightarrow> int" where
  "toUint8 x = x mod 256"

text \<open>\<open>a << b\<close>\<close>
definition js_shl :: "int \<Rightarrow> int \<Rightarrow> int" where
  "js_shl a b = toInt32 (toInt32 a * 2 ^ nat (b mod 32))"

text \<open>\<open>a >> b\<close> (sign-propagating)\<close>
definition js_sar :: "int \<Rightarrow> int \<Rightarrow> int" where
  "js_sar a b = toInt32 a div 2 ^ nat (b mod 32)"

text \<open>\<open>a & b\<close>, \<open>a | b\<close>, \<open>~a\<close>\<close>
definition js_and :: "int \<Rightarrow> int \<Rightarrow> int" where
  "js_and a b = toInt32 a AND toInt32 b"

definition js_or :: "int \<Rightarrow> int \<Rightarrow> int" where
  "js_or a b = toInt32 a OR toInt32 b"

definition js_not :: "int \<Rightarrow> int" where
  "js_not a = - toInt32 a - 1"

text \<open>
  A product of two integer-valued doubles is the exact product rounded to the nearest
  double, ties to even: integers of at most 53 bits are kept, a longer one keeps its
  leading 53 bits.  \<open>bitlen\<close> counts the bits of a non-negative integer.
\<close>

fun bitlen :: "nat \<Rightarrow> nat" where
  "bitlen n = (if n = 0 then 0 else Suc (bitlen (n div 2)))"

declare bitlen.simps [simp del]

definition roundDouble :: "int \<Rightarrow> int" where
  "roundDouble x =
     (let a = nat \<bar>x\<bar>; k = bitlen a in
      if k \<le> 53 then x
      else
        let e = k - 53;
            q = a div 2 ^ e;
            r = a mod 2 ^ e;
            h = 2 ^ (e - 1);
            q' = (if r > h \<or> (r = h \<and> odd q) then q + 1 else q)
        in sgn x * int (q' * 2 ^ e))"

section \<open>Tokens (compress/\_flate/token.ts)\<close>

definition LENGTH_SHIFT :: int where
  "LENGTH_SHIFT = 22"

definition OFFSET_MASK :: int where
  "OFFSET_MASK = js_shl 1 LENGTH_SHIFT - 1"

definition LITERAL_TYPE :: int where
  "LITERAL_TYPE = js_shl 0 30"

definition MATCH_TYPE :: int where
  "MATCH_TYPE = js_shl 1 30"

text \<open>\<open>class Token { constructor(public value: number) {} }\<close>\<close>

datatype token = Token (tvalue: int)

definition literal_tok :: "token \<Rightarrow> int" where
  "literal_tok t = tvalue t - LITERAL_TYPE"

definition offset :: "token \<Rightarrow> int" where
  "offset t = js_and (tvalue t) OFFSET_MASK"

text \<open>\<open>Token.literal()\<close> is \<open>literal_tok\<close> and \<open>Token.length()\<close> is \<open>length_tok\<close>.\<close>
definition length_tok :: "token \<Rightarrow> int" where
  "length_tok t = js_sar (tvalue t - MATCH_TYPE) LENGTH_SHIFT"

definition literalToken :: "int \<Rightarrow> token" where
  "literalToken l = Token (LITERAL_TYPE + l)"

text \<open>
  \<open>new Token(MATCH_TYPE + xlength << LENGTH_SHIFT + xoffset)\<close>: in JavaScript
  \<open>+\<close> binds tighter than \<open><<\<close>, so the expression is
  \<open>(MATCH_TYPE + xlength) << (LENGTH_SHIFT + xoffset)\<close>.
\<close>
definition matchToken :: "int \<Rightarrow> int \<Rightarrow> token" where
  "matchToken xlength xoffset = Token (js_shl (MATCH_TYPE + xlength) (LENGTH_SHIFT + xoffset))"

text \<open>The writers take a token for a match when \<open>token.value < MATCH_TYPE\<close> fails.\<close>
definition isMatch :: "token \<Rightarrow> bool" where
  "isMatch t = (\<not> tvalue t < MATCH_TYPE)"

section \<open>The match finder's hash (compress/\_flate/deflatefast.ts)\<close>

definition TABLE_BITS :: nat where
  "TABLE_BITS = 14"

definition TABLE_SHIFT :: nat where
  "TABLE_SHIFT = 32 - TABLE_BITS"

text \<open>The argument of \<open>hash\<close> is a \<open>number\<close> or a \<open>bigint\<close>.\<close>

datatype numeric = Number int | BigInt int

text \<open>BigInt division truncates towards zero.\<close>
definition bigint_div :: "int \<Rightarrow> int \<Rightarrow> int" where
  "bigint_div a b = sgn a * sgn b * (\<bar>a\<bar> div \<bar>b\<bar>)"

text \<open>
  For a \<open>number\<close>: \<open>Math.floor((u * 0x1e35a7bd) / (2 ** TABLE_SHIFT))\<close>.  The product
  is a double product; dividing a double by a power of two is exact, and the floor of
  the quotient is the floor division of the rounded product.  For a \<open>bigint\<close> the
  exact quotient is converted to a double.
\<close>
definition hash :: "numeric \<Rightarrow> int" where
  "hash u =
     (case u of
        BigInt b \<Rightarrow> roundDouble (bigint_div (b * 506832829) (2 ^ TABLE_SHIFT))
      | Number n \<Rightarrow> roundDouble (n * 506832829) div 2 ^ TABLE_SHIFT)"

section \<open>JavaScript arrays and results\<close>

text \<open>
  An \<open>Array\<close> whose elements are objects is a list of options: \<open>None\<close> is a hole or
  \<open>undefined\<close>.  Reading outside the array gives \<open>undefined\<close>; writing at or past the
  end extends the array, leaving holes between.  \<open>slice\<close> returns a fresh array
  (a copy); a negative bound counts from the end and both bounds are clamped.
\<close>

definition js_get :: "'a option list \<Rightarrow> int \<Rightarrow> 'a option" where
  "js_get xs i = (if 0 \<le> i \<and> i < int (length xs) then xs ! nat i else None)"

definition js_set :: "'a option list \<Rightarrow> nat \<Rightarrow> 'a \<Rightarrow> 'a option list" where
  "js_set xs i v =
     (if i < length xs then xs[i := Some v]
      else xs @ replicate (i - length xs) None @ [Some v])"

definition js_slice :: "'a list \<Rightarrow> int \<Rightarrow> int \<Rightarrow> 'a list" where
  "js_slice xs start fin =
     (let n = int (length xs);
          k = (if start < 0 then max (n + start) 0 else min start n);
          f = (if fin < 0 then max (n + fin) 0 else min fin n)
      in take (nat (f - k)) (drop (nat k) xs))"

text \<open>An array of numbers that has no holes is an \<open>int list\<close>.\<close>

definition num_get :: "int list \<Rightarrow> int \<Rightarrow> int option" where
  "num_get xs i = (if 0 \<le> i \<and> i < int (length xs) then Some (xs ! nat i) else None)"

text \<open>
  A \<open>Uint8Array\<close> has a fixed length: a store outside it is ignored, a store inside
  keeps the value modulo 256.
\<close>

definition ta_set :: "int list \<Rightarrow> int \<Rightarrow> int \<Rightarrow> int list" where
  "ta_set xs i v = (if 0 \<le> i \<and> i < int (length xs) then xs[nat i := toUint8 v] else xs)"

text \<open>
  What a call does: it returns a value and leaves a state, or it throws and leaves the
  state as mutated so far, or it never returns.  \<open>Unmodelled\<close> marks the points where
  the source goes on computing with \<open>NaN\<close> or \<open>undefined\<close> as a number (an
  increment of an array element that does not exist); this development does not follow
  it there.
\<close>

datatype js_error = TypeError | Error string

datatype ('r, 's) outcome = Returned 'r 's | Threw js_error 's | Diverged | Unmodelled

definition andThen :: "('r, 's) outcome \<Rightarrow> ('r \<Rightarrow> 's \<Rightarrow> ('q, 's) outcome) \<Rightarrow> ('q, 's) outcome" where
  "andThen m f =
     (case m of
        Returned r s \<Rightarrow> f r s
      | Threw e s \<Rightarrow> Threw e s
      | Diverged \<Rightarrow> Diverged
      | Unmodelled \<Rightarrow> Unmodelled)"

section \<open>Bit reversal (compress/\_flate/utils.ts)\<close>

text \<open>
  Modelled from the spec: \<open>reverseBits\<close> of \<open>utils.ts\<close>, which is not among the
  sources (only its test is).  The spec: "\<open>reverseBits(v)\<close>: returns the 16-bit
  reversal of \<open>v\<close>".  Bits above the low 16 are dropped.
\<close>

definition reverseBits :: "int \<Rightarrow> int" where
  "reverseBits v = (\<Sum>i \<leftarrow> [0..<16]. if bit v i then 2 ^ (15 - i) else 0)"

section \<open>Huffman encoder (compress/\_flate/huffman\_code.ts)\<close>

definition MAX_NUM_LIT :: int where
  "MAX_NUM_LIT = 286"

definition MAX_BITS_LIMIT :: int where
  "MAX_BITS_LIMIT = 16"

text \<open>
  \<open>const MAX_UINT16 = 2 ^ 16 - 1\<close> and \<open>const MAX_INT32 = 2 ^ 31 - 1\<close>: in
  JavaScript \<open>^\<close> is exclusive or and binds looser than \<open>-\<close>.
\<close>

definition MAX_UINT16 :: int where
  "MAX_UINT16 = toInt32 (toInt32 2 XOR toInt32 (16 - 1))"

definition MAX_INT32 :: int where
  "MAX_INT32 = toInt32 (toInt32 2 XOR toInt32 (31 - 1))"

record levelInfo =
  level :: int
  lastFreq :: int
  nextCharFreq :: int
  nextPairFreq :: int
  needed :: int

datatype hcode = Hcode (code: int) (len: int)

datatype literalNode = LiteralNode (literal: int) (freq: int)

definition maxNode :: literalNode where
  "maxNode = LiteralNode MAX_UINT16 MAX_INT32"

text \<open>
  \<open>class HuffmanEncoder\<close>.  The constructor sets \<open>codes = Array.from({ length: size })\<close>,
  an array of \<open>size\<close> undefined entries.
\<close>

record encoder =
  codes :: "hcode option list"
  freqcache :: "literalNode option list"
  bitCount :: "int list"

definition HuffmanEncoder :: "nat \<Rightarrow> encoder" where
  "HuffmanEncoder sz =
     \<lparr> codes = replicate sz None, freqcache = [], bitCount = replicate 17 0 \<rparr>"

definition compareByLiteral :: "literalNode \<Rightarrow> literalNode \<Rightarrow> int" where
  "compareByLiteral lhs rhs = literal lhs - literal rhs"

definition compareByFreq :: "literalNode \<Rightarrow> literalNode \<Rightarrow> int" where
  "compareByFreq lhs rhs =
     (if freq lhs = freq rhs then literal lhs - literal rhs else freq lhs - freq rhs)"

text \<open>
  \<open>Array.prototype.sort(cmp)\<close>: a stable sort of the defined elements; undefined
  elements and holes go to the end and the length is kept.
\<close>

fun insort_cmp :: "('a \<Rightarrow> 'a \<Rightarrow> int) \<Rightarrow> 'a \<Rightarrow> 'a list \<Rightarrow> 'a list" where
  "insort_cmp cmp x [] = [x]"
| "insort_cmp cmp x (y # ys) =
     (if cmp x y \<le> 0 then x # y # ys else y # insort_cmp cmp x ys)"

definition js_sort :: "('a \<Rightarrow> 'a \<Rightarrow> int) \<Rightarrow> 'a option list \<Rightarrow> 'a option list" where
  "js_sort cmp xs =
     map Some (foldr (insort_cmp cmp) (List.map_filter id xs) [])
     @ replicate (length (filter (\<lambda>x. x = None) xs)) None"

definition reverseBitsN :: "int \<Rightarrow> int \<Rightarrow> int" where
  "reverseBitsN number bitLength = reverseBits (js_shl number (16 - bitLength))"

text \<open>\<open>bitLength(freq)\<close>: \<open>this.codes[i].len\<close> throws on an undefined entry.\<close>

fun bitLength_from :: "hcode option list \<Rightarrow> int list \<Rightarrow> nat \<Rightarrow> int \<Rightarrow> js_error + int" where
  "bitLength_from cs [] i tot = Inr tot"
| "bitLength_from cs (f # fs) i tot =
     (if f \<noteq> 0 then
        (case js_get cs (int i) of
           None \<Rightarrow> Inl TypeError
         | Some c \<Rightarrow> bitLength_from cs fs (Suc i) (tot + f * len c))
      else bitLength_from cs fs (Suc i) tot)"

definition bitLength :: "encoder \<Rightarrow> int list \<Rightarrow> js_error + int" where
  "bitLength enc freqs = bitLength_from (codes enc) freqs 0 0"

subsection \<open>\<open>bitCounts\<close>\<close>

text \<open>
  The working state of the main loop of \<open>bitCounts\<close>: the array \<open>levels\<close> (16
  entries, undefined where never assigned), the matrix \<open>leafCounts\<close> (16 by 16) and
  the current \<open>level\<close>.  In the source \<open>l\<close> is the object \<open>levels[level]\<close>; its field
  \<open>l.level\<close> is the index it was stored at.
\<close>

type_synonym bc_state = "levelInfo option list \<times> int list list \<times> int"

datatype bc_step = Continue bc_state | Break bc_state | Fail js_error

text \<open>\<open>while (levels[level - 1].needed > 0) { level--; }\<close>; \<open>None\<close> is the TypeError
  of reading \<open>needed\<close> of an undefined entry.\<close>

function descend :: "levelInfo option list \<Rightarrow> int \<Rightarrow> int option" where
  "descend levels lv =
     (case js_get levels (lv - 1) of
        None \<Rightarrow> None
      | Some below \<Rightarrow> if needed below > 0 then descend levels (lv - 1) else Some lv)"
  by pat_completeness auto
termination
  by (relation "measure (\<lambda>(levels, lv). nat lv)") (auto simp: js_get_def split: if_splits)

declare descend.simps [simp del]

text \<open>
  One pass through the body of \<open>while (true)\<close>.  The first test of the body,
  \<open>l.nextPairFreq === Infinity && l.nextCharFreq == Infinity\<close>, is false for every
  finite number and its branch is left out.
\<close>

definition bitCounts_step :: "literalNode option list \<Rightarrow> int \<Rightarrow> bc_state \<Rightarrow> bc_step" where
  "bitCounts_step list maxBits st =
     (case st of (levels, leafCounts, lv) \<Rightarrow>
      (case js_get levels lv of
         None \<Rightarrow> Fail TypeError
       | Some l \<Rightarrow>
          let prevFreq = lastFreq l;
              chosen =
                (if nextCharFreq l < nextPairFreq l then
                   (let n = leafCounts ! nat lv ! nat lv + 1 in
                    case js_get list n of
                      None \<Rightarrow> Inl TypeError
                    | Some nd \<Rightarrow>
                        Inr (levels[nat lv := Some (l\<lparr>lastFreq := nextCharFreq l,
                                                     nextCharFreq := freq nd\<rparr>)],
                             leafCounts[nat lv := (leafCounts ! nat lv)[nat lv := n]]))
                 else
                   (let l1 = l\<lparr>lastFreq := nextPairFreq l\<rparr>;
                        leafCounts1 = leafCounts[nat (lv - 1) :=
                           take (nat lv) (leafCounts ! nat lv)
                           @ drop (nat lv) (leafCounts ! nat (lv - 1))];
                        levels1 = levels[nat lv := Some l1]
                    in case js_get levels1 (level l1 - 1) of
                         None \<Rightarrow> Inl TypeError
                       | Some below \<Rightarrow>
                           Inr (levels1[nat (level l1 - 1) := Some (below\<lparr>needed := 2\<rparr>)],
                                leafCounts1)))
          in case chosen of
               Inl e \<Rightarrow> Fail e
             | Inr (levels2, leafCounts2) \<Rightarrow>
                (case js_get levels2 lv of
                   None \<Rightarrow> Fail TypeError
                 | Some l2 \<Rightarrow>
                    let l3 = l2\<lparr>needed := needed l2 - 1\<rparr>;
                        levels3 = levels2[nat lv := Some l3]
                    in if needed l3 = 0 then
                         (if level l3 = maxBits then Break (levels3, leafCounts2, lv)
                          else
                            (case js_get levels3 (level l3 + 1) of
                               None \<Rightarrow> Fail TypeError
                             | Some up \<Rightarrow>
                                 Continue
                                   (levels3[nat (level l3 + 1) :=
                                      Some (up\<lparr>nextPairFreq := prevFreq + lastFreq l3\<rparr>)],
                                    leafCounts2, lv + 1)))
                       else
                         (case descend levels3 lv of
                            None \<Rightarrow> Fail TypeError
                          | Some lv' \<Rightarrow> Continue (levels3, leafCounts2, lv')))))"

text \<open>The loop \<open>while (true)\<close>: it may run forever, so not returning is \<open>None\<close>.\<close>

partial_function (option) bitCounts_loop ::
  "literalNode option list \<Rightarrow> int \<Rightarrow> bc_state \<Rightarrow> (js_error + bc_state) option" where
  "bitCounts_loop list maxBits st =
     (case bitCounts_step list maxBits st of
        Continue st' \<Rightarrow> bitCounts_loop list maxBits st'
      | Break st' \<Rightarrow> Some (Inr st')
      | Fail e \<Rightarrow> Some (Inl e))"

declare bitCounts_loop.simps [code]

text \<open>The last loop: \<open>bitCount[bits] = counts[level] - counts[level - 1]\<close> for
  \<open>level = maxBits, ..., 1\<close> and \<open>bits = 1, 2, ...\<close>.\<close>

fun fill_bitCount :: "int list \<Rightarrow> int list \<Rightarrow> nat \<Rightarrow> nat \<Rightarrow> int list" where
  "fill_bitCount counts bc 0 bits = bc"
| "fill_bitCount counts bc (Suc k) bits =
     fill_bitCount counts (bc[bits := counts ! Suc k - counts ! k]) k (Suc bits)"

text \<open>
  \<open>bitCounts(list, maxBits)\<close>.  It stores the sentinel \<open>maxNode()\<close> at \<open>list[n]\<close> of
  the array it was given, which is the caller's array; the result carries the array as
  left.  \<open>this.bitCount.slice(...)\<close> is a copy: the encoder is not changed.
\<close>

datatype bc_result = BitCounts "int list" "literalNode option list" | BcThrew js_error | BcDiverged

definition bitCounts :: "encoder \<Rightarrow> literalNode option list \<Rightarrow> int \<Rightarrow> bc_result" where
  "bitCounts enc list0 maxBits0 =
     (if maxBits0 \<ge> MAX_BITS_LIMIT then BcThrew (Error ''flate: maxBits too large'')
      else
        let n = int (length list0);
            list = list0 @ [Some maxNode];
            maxBits = (if maxBits0 > n - 1 then n - 1 else maxBits0)
        in if 1 \<le> maxBits \<and> (js_get list 1 = None \<or> js_get list 2 = None \<or> js_get list 0 = None)
           then BcThrew TypeError
           else
             let levels0 = map (\<lambda>i. if 1 \<le> i \<and> int i \<le> maxBits then
                                   Some \<lparr> level = int i,
                                          lastFreq = freq (the (js_get list 1)),
                                          nextCharFreq = freq (the (js_get list 2)),
                                          nextPairFreq =
                                            (if i = 1 then MAX_INT32
                                             else freq (the (js_get list 0)) + freq (the (js_get list 1))),
                                          needed = 0 \<rparr>
                                 else None) [0..<16];
                 leafCounts0 = map (\<lambda>i. map (\<lambda>j. if 1 \<le> i \<and> int i \<le> maxBits \<and> j = i
                                                 then 2 else (0::int)) [0..<16]) [0..<16]
             in case js_get levels0 maxBits of
                  None \<Rightarrow> BcThrew TypeError
                | Some tp \<Rightarrow>
                   (case bitCounts_loop list maxBits
                           (levels0[nat maxBits := Some (tp\<lparr>needed := 2 * n - 4\<rparr>)],
                            leafCounts0, maxBits) of
                      None \<Rightarrow> BcDiverged
                    | Some (Inl e) \<Rightarrow> BcThrew e
                    | Some (Inr (levels, leafCounts, lv)) \<Rightarrow>
                       if leafCounts ! nat maxBits ! nat maxBits \<noteq> n
                       then BcThrew (Error ''leafCounts[maxBits][maxBits] != n'')
                       else BitCounts
                              (fill_bitCount (leafCounts ! nat maxBits)
                                 (js_slice (bitCount enc) 0 (maxBits + 1)) (nat maxBits) 1)
                              list))"

subsection \<open>\<open>assignEncodingAndSize\<close>\<close>

text \<open>\<open>for (const node of chunk) { this.codes[node.literal] = new Hcode(...); code++; }\<close>:
  an undefined \<open>node\<close> throws at \<open>node.literal\<close>, with the codes assigned so far.\<close>

fun assign_chunk ::
  "literalNode option list \<Rightarrow> int \<Rightarrow> hcode option list \<Rightarrow> int \<Rightarrow> hcode option list \<times> int option" where
  "assign_chunk [] n cs c = (cs, Some c)"
| "assign_chunk (None # chunk) n cs c = (cs, None)"
| "assign_chunk (Some node # chunk) n cs c =
     assign_chunk chunk n (js_set cs (nat (literal node)) (Hcode (reverseBitsN c n) n)) (c + 1)"

fun assign_from ::
  "int list \<Rightarrow> nat \<Rightarrow> literalNode option list \<Rightarrow> hcode option list \<Rightarrow> int \<Rightarrow> hcode option list \<times> bool" where
  "assign_from [] n list cs c = (cs, True)"
| "assign_from (nb # rest) n list cs c0 =
     (let c = js_shl c0 1 in
      if n = 0 \<or> nb = 0 then assign_from rest (Suc n) list cs c
      else
        let chunk = js_sort compareByLiteral
                      (js_slice list (int (length list) - nb) (int (length list)))
        in case assign_chunk chunk (int n) cs c of
             (cs', None) \<Rightarrow> (cs', False)
           | (cs', Some c') \<Rightarrow>
               assign_from rest (Suc n)
                 (js_slice list 0 (int (length list) - nb)) cs' c')"

definition assignEncodingAndSize ::
  "encoder \<Rightarrow> int list \<Rightarrow> literalNode option list \<Rightarrow> (unit, encoder) outcome" where
  "assignEncodingAndSize enc bc list =
     (case assign_from bc 0 list (codes enc) 0 of
        (cs, True) \<Rightarrow> Returned () (enc\<lparr>codes := cs\<rparr>)
      | (cs, False) \<Rightarrow> Threw TypeError (enc\<lparr>codes := cs\<rparr>))"

subsection \<open>\<open>generate\<close>\<close>

text \<open>
  The first loop of \<open>generate\<close>, from index \<open>i\<close>: it fills \<open>list\<close> and resets the
  length of every symbol of frequency 0.  \<open>this.codes[i].len = 0\<close> throws when
  \<open>codes[i]\<close> is undefined.
\<close>

fun collect ::
  "int list \<Rightarrow> nat \<Rightarrow> literalNode option list \<Rightarrow> nat \<Rightarrow> hcode option list
   \<Rightarrow> (literalNode option list \<times> nat \<times> hcode option list) option \<times> hcode option list" where
  "collect [] i list count cs = (Some (list, count, cs), cs)"
| "collect (f # fs) i list count cs =
     (if f \<noteq> 0 then collect fs (Suc i) (js_set list count (LiteralNode (int i) f)) (Suc count) cs
      else
        (case js_get cs (int i) of
           None \<Rightarrow> (None, cs)
         | Some c \<Rightarrow>
             collect fs (Suc i) (js_set list count (LiteralNode 0 0)) count
               (cs[i := Some (Hcode (code c) 0)])))"

text \<open>The loop of the case \<open>count <= 2\<close>:
  \<open>for (let i = 0; i < list.length; i++) { this.codes[list[i].literal].set(i, 1); }\<close>.\<close>

fun set_small :: "literalNode option list \<Rightarrow> nat \<Rightarrow> hcode option list \<Rightarrow> hcode option list \<times> bool" where
  "set_small [] i cs = (cs, True)"
| "set_small (None # list) i cs = (cs, False)"
| "set_small (Some node # list) i cs =
     (case js_get cs (literal node) of
        None \<Rightarrow> (cs, False)
      | Some c \<Rightarrow> set_small list (Suc i) (cs[nat (literal node) := Some (Hcode (int i) 1)]))"

definition generate :: "encoder \<Rightarrow> int list \<Rightarrow> int \<Rightarrow> (unit, encoder) outcome" where
  "generate enc freqs maxBits =
     (let list0 = js_slice (freqcache enc) 0 (int (length freqs) + 1) in
      case collect freqs 0 list0 0 (codes enc) of
        (None, cs) \<Rightarrow> Threw TypeError (enc\<lparr>codes := cs\<rparr>)
      | (Some (list1, count, cs), _) \<Rightarrow>
          let list = js_set list1 (length freqs) (LiteralNode 0 0);
              enc1 = enc\<lparr>codes := cs\<rparr>
          in if count \<le> 2 then
               (case set_small list 0 cs of
                  (cs', True) \<Rightarrow> Returned () (enc\<lparr>codes := cs'\<rparr>)
                | (cs', False) \<Rightarrow> Threw TypeError (enc\<lparr>codes := cs'\<rparr>))
             else
               (case bitCounts enc1 (js_sort compareByFreq list) maxBits of
                  BcThrew e \<Rightarrow> Threw e enc1
                | BcDiverged \<Rightarrow> Diverged
                | BitCounts bc list' \<Rightarrow> assignEncodingAndSize enc1 bc list'))"

subsection \<open>Fixed encodings\<close>

text \<open>\<open>\_reverseBits(number, bitLength)\<close> is \<open>reverseBitsN\<close> above.\<close>

definition generateFixedLiteralEncoding :: encoder where
  "generateFixedLiteralEncoding =
     (HuffmanEncoder (nat MAX_NUM_LIT))
       \<lparr>codes := map (\<lambda>ch.
           if ch < 144 then Some (Hcode (reverseBitsN (int ch + 48) 8) 8)
           else if ch < 256 then Some (Hcode (reverseBitsN (int ch + 400 - 144) 9) 9)
           else if ch < 280 then Some (Hcode (reverseBitsN (int ch - 256) 7) 7)
           else Some (Hcode (reverseBitsN (int ch + 192 - 280) 8) 8)) [0..<nat MAX_NUM_LIT]\<rparr>"

definition generateFixedOffsetEncoding :: encoder where
  "generateFixedOffsetEncoding =
     (HuffmanEncoder 30)\<lparr>codes := map (\<lambda>ch. Some (Hcode (reverseBitsN (int ch) 5) 5)) [0..<30]\<rparr>"

definition fixedLiteralEncoding :: encoder where
  "fixedLiteralEncoding = generateFixedLiteralEncoding"

definition fixedOffsetEncoding :: encoder where
  "fixedOffsetEncoding = generateFixedOffsetEncoding"

section \<open>Length and offset codes (compress/\_flate/token.ts)\<close>

definition LENGTH_CODES :: "int list" where
  "LENGTH_CODES =
     [0, 1, 2, 3, 4, 5, 6, 7, 8, 8, 9, 9, 10, 10, 11, 11, 12, 12, 12, 12, 13, 13, 13, 13,
      14, 14, 14, 14, 15, 15, 15, 15, 16, 16, 16, 16, 16, 16, 16, 16, 17, 17, 17, 17, 17,
      17, 17, 17, 18, 18, 18, 18, 18, 18, 18, 18, 19, 19, 19, 19, 19, 19, 19, 19, 20, 20,
      20, 20, 20, 20, 20, 20, 20, 20, 20, 20, 20, 20, 20, 20, 21, 21, 21, 21, 21, 21, 21,
      21, 21, 21, 21, 21, 21, 21, 21, 21, 22, 22, 22, 22, 22, 22, 22, 22, 22, 22, 22, 22,
      22, 22, 22, 22, 23, 23, 23, 23, 23, 23, 23, 23, 23, 23, 23, 23, 23, 23, 23, 23, 24,
      24, 24, 24, 24, 24, 24, 24, 24, 24, 24, 24, 24, 24, 24, 24, 24, 24, 24, 24, 24, 24,
      24, 24, 24, 24, 24, 24, 24, 24, 24, 24, 25, 25, 25, 25, 25, 25, 25, 25, 25, 25, 25,
      25, 25, 25, 25, 25, 25, 25, 25, 25, 25, 25, 25, 25, 25, 25, 25, 25, 25, 25, 25, 25,
      26, 26, 26, 26, 26, 26, 26, 26, 26, 26, 26, 26, 26, 26, 26, 26, 26, 26, 26, 26, 26,
      26, 26, 26, 26, 26, 26, 26, 26, 26, 26, 26, 27, 27, 27, 27, 27, 27, 27, 27, 27, 27,
      27, 27, 27, 27, 27, 27, 27, 27, 27, 27, 27, 27, 27, 27, 27, 27, 27, 27, 27, 27, 27,
      28]"

definition OFFSET_CODES :: "int list" where
  "OFFSET_CODES =
     [0, 1, 2, 3, 4, 4, 5, 5, 6, 6, 6, 6, 7, 7, 7, 7, 8, 8, 8, 8, 8, 8, 8, 8, 9, 9, 9, 9,
      9, 9, 9, 9, 10, 10, 10, 10, 10, 10, 10, 10, 10, 10, 10, 10, 10, 10, 10, 10, 11, 11,
      11, 11, 11, 11, 11, 11, 11, 11, 11, 11, 11, 11, 11, 11, 12, 12, 12, 12, 12, 12, 12,
      12, 12, 12, 12, 12, 12, 12, 12, 12, 12, 12, 12, 12, 12, 12, 12, 12, 12, 12, 12, 12,
      12, 12, 12, 12, 13, 13, 13, 13, 13, 13, 13, 13, 13, 13, 13, 13, 13, 13, 13, 13, 13,
      13, 13, 13, 13, 13, 13, 13, 13, 13, 13, 13, 13, 13, 13, 13, 14, 14, 14, 14, 14, 14,
      14, 14, 14, 14, 14, 14, 14, 14, 14, 14, 14, 14, 14, 14, 14, 14, 14, 14, 14, 14, 14,
      14, 14, 14, 14, 14, 14, 14, 14, 14, 14, 14, 14, 14, 14, 14, 14, 14, 14, 14, 14, 14,
      14, 14, 14, 14, 14, 14, 14, 14, 14, 14, 14, 14, 14, 14, 14, 14, 15, 15, 15, 15, 15,
      15, 15, 15, 15, 15, 15, 15, 15, 15, 15, 15, 15, 15, 15, 15, 15, 15, 15, 15, 15, 15,
      15, 15, 15, 15, 15, 15, 15, 15, 15, 15, 15, 15, 15, 15, 15, 15, 15, 15, 15, 15, 15,
      15, 15, 15, 15, 15, 15, 15, 15, 15, 15, 15, 15, 15, 15, 15, 15, 15]"

text \<open>A table lookup outside the table is \<open>undefined\<close>.\<close>

definition lengthCode :: "int \<Rightarrow> int option" where
  "lengthCode l = num_get LENGTH_CODES l"

definition offsetCode :: "int \<Rightarrow> int option" where
  "offsetCode off =
     (if off < int (length OFFSET_CODES) then num_get OFFSET_CODES off
      else if js_sar off 7 < int (length OFFSET_CODES)
        then map_option (\<lambda>c. c + 14) (num_get OFFSET_CODES (js_sar off 7))
      else map_option (\<lambda>c. c + 28) (num_get OFFSET_CODES (js_sar off 14)))"

section \<open>Bit writer (compress/\_flate/huffman\_bit\_writer.ts)\<close>

definition OFFSET_CODE_COUNT :: int where
  "OFFSET_CODE_COUNT = 30"

definition END_BLOCK_MARKER :: int where
  "END_BLOCK_MARKER = 256"

definition LENGTH_CODES_START :: int where
  "LENGTH_CODES_START = 257"

definition CODEGEN_CODE_COUNT :: int where
  "CODEGEN_CODE_COUNT = 19"

definition BAD_CODE :: int where
  "BAD_CODE = 255"

definition BUFFER_FLUSH_SIZE :: int where
  "BUFFER_FLUSH_SIZE = 240"

definition BUFFER_SIZE :: int where
  "BUFFER_SIZE = BUFFER_FLUSH_SIZE + 8"

definition MAX_STORE_BLOCK_SIZE :: int where
  "MAX_STORE_BLOCK_SIZE = 65535"

definition LENGTH_EXTRA_BITS :: "int list" where
  "LENGTH_EXTRA_BITS =
     [0, 0, 0, 0, 0, 0, 0, 0, 1, 1, 1, 1, 2, 2, 2, 2, 3, 3, 3, 3, 4, 4, 4, 4, 5, 5, 5, 5,
      0]"

definition LENGTH_BASE :: "int list" where
  "LENGTH_BASE =
     [0, 1, 2, 3, 4, 5, 6, 7, 8, 10, 12, 14, 16, 20, 24, 28, 32, 40, 48, 56, 64, 80, 96,
      112, 128, 160, 192, 224, 255]"

definition OFFSET_EXTRA_BITS :: "int list" where
  "OFFSET_EXTRA_BITS =
     [0, 0, 0, 0, 1, 1, 2, 2, 3, 3, 4, 4, 5, 5, 6, 6, 7, 7, 8, 8, 9, 9, 10, 10, 11, 11,
      12, 12, 13, 13]"

definition OFFSET_BASE :: "int list" where
  "OFFSET_BASE =
     [0, 1, 2, 3, 4, 6, 8, 12, 16, 24, 32, 48, 64, 96, 128, 192, 256, 384, 512, 768,
      1024, 1536, 2048, 3072, 4096, 6144, 8192, 12288, 16384, 24576]"

definition codegenOrder :: "int list" where
  "codegenOrder =
     [16, 17, 18, 0, 8, 7, 9, 6, 10, 5, 11, 4, 12, 3, 13, 2, 14, 1, 15]"

subsection \<open>The sink and the writer's state\<close>

text \<open>
  The underlying \<open>Deno.Writer\<close> is outside the sources.  It is a sink that records the
  payload of every write it accepts; a sink with a budget throws once that many writes
  have been accepted.
\<close>

record sink =
  received :: "int list list"
  budget :: "nat option"

definition sink_write :: "sink \<Rightarrow> int list \<Rightarrow> js_error + sink" where
  "sink_write k b =
     (case budget k of
        None \<Rightarrow> Inr (k\<lparr>received := received k @ [b]\<rparr>)
      | Some 0 \<Rightarrow> Inl (Error ''write failed'')
      | Some (Suc m) \<Rightarrow> Inr (k\<lparr>received := received k @ [b], budget := Some m\<rparr>))"

text \<open>
  \<open>class HuffmanBitWriter\<close>.  The last field is the module-level singleton behind
  \<open>huffOffset.instance()\<close>, which \<open>writeBlockHuff\<close> reads and sets.
\<close>

record huffmanBitWriter =
  bits :: int
  nbits :: int
  bytes :: "int list"
  codegenFreq :: "int list"
  nbytes :: int
  literalFreq :: "int list"
  offsetFreq :: "int list"
  codegen :: "int list"
  literalEncoding :: encoder
  offsetEncoding :: encoder
  codegenEncoding :: encoder
  err :: "js_error option"
  writer :: sink
  singleton :: "encoder option"

definition HuffmanBitWriter :: "sink \<Rightarrow> huffmanBitWriter" where
  "HuffmanBitWriter k =
     \<lparr> bits = 0, nbits = 0,
       bytes = replicate (nat BUFFER_SIZE) 0,
       codegenFreq = replicate (nat CODEGEN_CODE_COUNT) 0,
       nbytes = 0,
       literalFreq = replicate (nat MAX_NUM_LIT) 0,
       offsetFreq = replicate (nat OFFSET_CODE_COUNT) 0,
       codegen = replicate (nat (MAX_NUM_LIT + OFFSET_CODE_COUNT + 1)) 0,
       literalEncoding = HuffmanEncoder (nat MAX_NUM_LIT),
       offsetEncoding = HuffmanEncoder (nat CODEGEN_CODE_COUNT),
       codegenEncoding = HuffmanEncoder (nat OFFSET_CODE_COUNT),
       err = None,
       writer = k,
       singleton = None \<rparr>"

definition reset :: "huffmanBitWriter \<Rightarrow> sink \<Rightarrow> huffmanBitWriter" where
  "reset w k = w\<lparr>writer := k, bits := 0, nbits := 0, nbytes := 0, err := None\<rparr>"

text \<open>\<open>xs[i]++\<close> on an array of numbers, for an index inside the array; outside it the
  element becomes \<open>NaN\<close>, which is not followed (\<open>None\<close>).\<close>

definition bump :: "int list \<Rightarrow> int \<Rightarrow> int list option" where
  "bump xs i =
     (if 0 \<le> i \<and> i < int (length xs) then Some (xs[nat i := xs ! nat i + 1]) else None)"

subsection \<open>\<open>write\<close>, \<open>writeBits\<close>, \<open>writeCode\<close>, \<open>flush\<close>, \<open>writeBytes\<close>\<close>

text \<open>The method \<open>write\<close> is \<open>write_out\<close> here: a failed write of the sink is caught and
  kept in \<open>err\<close>.\<close>

definition write_out :: "huffmanBitWriter \<Rightarrow> int list \<Rightarrow> (unit, huffmanBitWriter) outcome" where
  "write_out w b =
     (if err w \<noteq> None then Returned () w
      else
        (case sink_write (writer w) b of
           Inr k \<Rightarrow> Returned () (w\<lparr>writer := k\<rparr>)
         | Inl e \<Rightarrow> Returned () (w\<lparr>err := Some e\<rparr>)))"

text \<open>The six stores \<open>bytes[0] = bits; ...; bytes[5] = bits >> 40\<close>.\<close>

definition store6 :: "int list \<Rightarrow> int \<Rightarrow> int list" where
  "store6 local b =
     ta_set (ta_set (ta_set (ta_set (ta_set (ta_set local 0 b) 1 (js_sar b 8)) 2 (js_sar b 16))
       3 (js_sar b 24)) 4 (js_sar b 32)) 5 (js_sar b 40)"

text \<open>
  The body shared, word for word, by \<open>writeBits(b, nb)\<close> and \<open>writeCode(c)\<close> after
  their guard.  \<open>this.bytes.slice(n, n + 6)\<close> is a copy of six bytes of the staging
  buffer: the six stores go to the copy, which is dropped.
\<close>

definition pushBits :: "huffmanBitWriter \<Rightarrow> int \<Rightarrow> int \<Rightarrow> (unit, huffmanBitWriter) outcome" where
  "pushBits w b nb =
     (let w1 = w\<lparr>bits := js_or (bits w) (js_shl b (nbits w)), nbits := nbits w + nb\<rparr> in
      if nbits w1 \<ge> 48 then
        let bits0 = bits w1;
            w2 = w1\<lparr>bits := js_sar (bits w1) 48, nbits := nbits w1 - 48\<rparr>;
            n = nbytes w2;
            local = store6 (js_slice (bytes w2) n (n + 6)) bits0;
            n1 = n + 6
        in if n1 \<ge> BUFFER_FLUSH_SIZE then
             andThen (write_out w2 (js_slice (bytes w2) 0 n1)) (\<lambda>_ w3. Returned () (w3\<lparr>nbytes := 0\<rparr>))
           else Returned () (w2\<lparr>nbytes := n1\<rparr>)
      else Returned () w1)"

definition writeBits :: "huffmanBitWriter \<Rightarrow> int \<Rightarrow> int \<Rightarrow> (unit, huffmanBitWriter) outcome" where
  "writeBits w b nb = (if err w \<noteq> None then Returned () w else pushBits w b nb)"

text \<open>\<open>writeCode(c)\<close>: an undefined \<open>c\<close> throws at \<open>c.code\<close>, after the guard.\<close>

definition writeCode :: "huffmanBitWriter \<Rightarrow> hcode option \<Rightarrow> (unit, huffmanBitWriter) outcome" where
  "writeCode w c =
     (if err w \<noteq> None then Returned () w
      else (case c of None \<Rightarrow> Threw TypeError w | Some h \<Rightarrow> pushBits w (code h) (len h)))"

text \<open>The loop of \<open>flush\<close>, on \<open>(bytes, bits, nbits)\<close>; \<open>n\<close> is not advanced.\<close>

function flush_loop :: "int \<Rightarrow> int list \<Rightarrow> int \<Rightarrow> int \<Rightarrow> int list \<times> int \<times> int" where
  "flush_loop n bs b nb =
     (if nb \<noteq> 0 then flush_loop n (ta_set bs n b) (js_sar b 8) (if nb > 8 then nb - 8 else 0)
      else (bs, b, nb))"
  by pat_completeness auto
termination
  by (relation "measure (\<lambda>(n, bs, b, nb). if nb = 0 then 0 else if nb < 0 then 1 else nat nb + 1)")
     auto

declare flush_loop.simps [simp del]

definition flush :: "huffmanBitWriter \<Rightarrow> (unit, huffmanBitWriter) outcome" where
  "flush w =
     (if err w \<noteq> None then Returned () (w\<lparr>nbits := 0\<rparr>)
      else
        let n = nbytes w in
        case flush_loop n (bytes w) (bits w) (nbits w) of
          (bs, b, nb) \<Rightarrow>
            andThen (write_out (w\<lparr>bytes := bs, bits := 0, nbits := nb\<rparr>) (js_slice bs 0 n))
              (\<lambda>_ w1. Returned () (w1\<lparr>nbytes := 0\<rparr>)))"

text \<open>
  The loop of \<open>writeBytes\<close>: \<open>while (this.nbits !== 0) { ...; this.nbits -= 8; n++; }\<close>.
  It ends only from a non-negative multiple of 8; otherwise it never ends (\<open>None\<close>).
\<close>

function writeBytes_loop :: "int \<Rightarrow> int list \<Rightarrow> int \<Rightarrow> int \<Rightarrow> (int \<times> int list \<times> int \<times> int) option" where
  "writeBytes_loop n bs b nb =
     (if nb = 0 then Some (n, bs, b, nb)
      else if nb < 0 \<or> nb mod 8 \<noteq> 0 then None
      else writeBytes_loop (n + 1) (ta_set bs n b) (js_sar b 8) (nb - 8))"
  by pat_completeness auto
termination
  by (relation "measure (\<lambda>(n, bs, b, nb). nat nb)") auto

declare writeBytes_loop.simps [simp del]

definition writeBytes :: "huffmanBitWriter \<Rightarrow> int list \<Rightarrow> (unit, huffmanBitWriter) outcome" where
  "writeBytes w bs =
     (if err w \<noteq> None then Returned () w
      else if js_and (nbits w) 7 \<noteq> 0 then
        Returned () (w\<lparr>err := Some (Error ''flate: internal error: writeBytes with unfinished bits'')\<rparr>)
      else
        (case writeBytes_loop (nbytes w) (bytes w) (bits w) (nbits w) of
           None \<Rightarrow> Diverged
         | Some (n, bs', b, nb) \<Rightarrow>
             let w1 = w\<lparr>bytes := bs', bits := b, nbits := nb\<rparr> in
             andThen (if n \<noteq> 0 then write_out w1 (js_slice bs' 0 n) else Returned () w1)
               (\<lambda>_ w2. write_out (w2\<lparr>nbytes := 0\<rparr>) bs)))"

subsection \<open>\<open>generateCodegen\<close>\<close>

text \<open>\<open>while (count >= 3) { ... codegen[outIndex] = 16; ... }\<close>, on
  \<open>(codegen, outIndex, codegenFreq, count)\<close>.\<close>

function repeat16 :: "int list \<Rightarrow> int \<Rightarrow> int list \<Rightarrow> int \<Rightarrow> (int list \<times> int \<times> int list \<times> int) option" where
  "repeat16 cg out fr count =
     (if count \<ge> 3 then
        let n = (if 6 > count then count else 6) in
        (case bump fr 16 of
           None \<Rightarrow> None
         | Some fr' \<Rightarrow> repeat16 (ta_set (ta_set cg out 16) (out + 1) (n - 3)) (out + 2) fr' (count - n))
      else Some (cg, out, fr, count))"
  by pat_completeness auto
termination
  by (relation "measure (\<lambda>(cg, out, fr, count). nat count)") auto

declare repeat16.simps [simp del]

text \<open>\<open>while (count >= 11) { ... codegen[outIndex] = 18; ... }\<close>\<close>

function repeat18 :: "int list \<Rightarrow> int \<Rightarrow> int list \<Rightarrow> int \<Rightarrow> (int list \<times> int \<times> int list \<times> int) option" where
  "repeat18 cg out fr count =
     (if count \<ge> 11 then
        let n = (if 138 > count then count else 138) in
        (case bump fr 18 of
           None \<Rightarrow> None
         | Some fr' \<Rightarrow> repeat18 (ta_set (ta_set cg out 18) (out + 1) (n - 11)) (out + 2) fr' (count - n))
      else Some (cg, out, fr, count))"
  by pat_completeness auto
termination
  by (relation "measure (\<lambda>(cg, out, fr, count). nat count)") auto

declare repeat18.simps [simp del]

text \<open>\<open>for (; count >= 0; count--) { codegen[outIndex] = size; outIndex++; this.codegenFreq[size]++; }\<close>\<close>

function emit_rest :: "int list \<Rightarrow> int \<Rightarrow> int list \<Rightarrow> int \<Rightarrow> int \<Rightarrow> (int list \<times> int \<times> int list) option" where
  "emit_rest cg out fr sz count =
     (if count \<ge> 0 then
        (case bump fr sz of
           None \<Rightarrow> None
         | Some fr' \<Rightarrow> emit_rest (ta_set cg out sz) (out + 1) fr' sz (count - 1))
      else Some (cg, out, fr))"
  by pat_completeness auto
termination
  by (relation "measure (\<lambda>(cg, out, fr, sz, count). nat (count + 1))") auto

declare emit_rest.simps [simp del]

text \<open>The part of the loop body that generates the codegen for \<open>count\<close> copies of
  \<open>size\<close>; \<open>None\<close> where a frequency outside \<open>codegenFreq\<close> is incremented.\<close>

definition emit_run :: "int list \<Rightarrow> int \<Rightarrow> int list \<Rightarrow> int \<Rightarrow> int \<Rightarrow> (int list \<times> int \<times> int list) option" where
  "emit_run cg out fr sz count =
     (case
        (if sz \<noteq> 0 then
           (case bump fr sz of
              None \<Rightarrow> None
            | Some fr1 \<Rightarrow> repeat16 (ta_set cg out sz) (out + 1) fr1 (count - 1))
         else
           (case repeat18 cg out fr count of
              None \<Rightarrow> None
            | Some (cg1, out1, fr1, count1) \<Rightarrow>
                if count1 \<ge> 3 then
                  (case bump fr1 17 of
                     None \<Rightarrow> None
                   | Some fr2 \<Rightarrow>
                       Some (ta_set (ta_set cg1 out1 17) (out1 + 1) (count1 - 3), out1 + 2, fr2, 0))
                else Some (cg1, out1, fr1, count1)))
      of None \<Rightarrow> None
       | Some (cg2, out2, fr2, count2) \<Rightarrow> emit_rest cg2 out2 fr2 sz (count2 - 1))"

datatype cg_result = CgDone "int list" int "int list" | CgDiverged | CgUnmodelled

text \<open>
  \<open>for (let inIndex = 1; size != BAD_CODE; inIndex++)\<close>, with \<open>len\<close> the length of the
  buffer.  A read past the buffer is \<open>undefined\<close>: the pending run is generated,
  \<open>size\<close> becomes \<open>undefined\<close>, every later read equals it and the loop never ends.
\<close>

function codegen_loop :: "nat \<Rightarrow> int list \<Rightarrow> int list \<Rightarrow> int \<Rightarrow> int \<Rightarrow> int \<Rightarrow> nat \<Rightarrow> cg_result" where
  "codegen_loop n cg fr sz count out inIndex =
     (if sz = BAD_CODE then CgDone cg out fr
      else if inIndex \<ge> n then CgDiverged
      else
        (case num_get cg (int inIndex) of
           None \<Rightarrow> CgDiverged
         | Some nextSize \<Rightarrow>
             if nextSize = sz then codegen_loop n cg fr sz (count + 1) out (inIndex + 1)
             else
               (case emit_run cg out fr sz count of
                  None \<Rightarrow> CgUnmodelled
                | Some (cg', out', fr') \<Rightarrow> codegen_loop n cg' fr' nextSize 1 out' (inIndex + 1))))"
  by pat_completeness auto
termination
  by (relation "measure (\<lambda>(n, cg, fr, sz, count, out, inIndex). n - inIndex)") auto

declare codegen_loop.simps [simp del]

text \<open>
  \<open>generateCodegen(numLiterals, numOffsets, litEnc, offEnc)\<close>.  \<open>cgnl\<close> is
  \<open>codegen.slice(...)\<close>, a copy: the loops \<open>cgnl[i] = litEnc.codes[i].len\<close> and
  \<open>cgnl[i] = offEnc.codes[i].len\<close> read the code lengths (and throw on an undefined
  code) but store them into the copies only.
\<close>

definition all_defined :: "hcode option list \<Rightarrow> nat \<Rightarrow> bool" where
  "all_defined cs n = (\<forall>i \<in> set [0..<n]. js_get cs (int i) \<noteq> None)"

definition generateCodegen ::
  "huffmanBitWriter \<Rightarrow> int \<Rightarrow> int \<Rightarrow> encoder \<Rightarrow> encoder \<Rightarrow> (unit, huffmanBitWriter) outcome" where
  "generateCodegen w numLiterals numOffsets litEnc offEnc =
     (let w1 = w\<lparr>codegenFreq := map (\<lambda>_. 0) (codegenFreq w)\<rparr>;
          cg = codegen w1;
          cgnl1 = js_slice cg 0 numLiterals;
          cgnl2 = js_slice cg numLiterals (numLiterals + numOffsets)
      in if \<not> all_defined (codes litEnc) (length cgnl1) then Threw TypeError w1
         else if \<not> all_defined (codes offEnc) (length cgnl2) then Threw TypeError w1
         else
           let cg1 = ta_set cg (numLiterals + numOffsets) BAD_CODE in
           (case num_get cg1 0 of
              None \<Rightarrow> Diverged
            | Some sz \<Rightarrow>
               (case codegen_loop (length cg1) cg1 (codegenFreq w1) sz 1 0 1 of
                  CgDiverged \<Rightarrow> Diverged
                | CgUnmodelled \<Rightarrow> Unmodelled
                | CgDone cg2 out fr \<Rightarrow>
                    Returned () (w1\<lparr>codegen := ta_set cg2 out BAD_CODE, codegenFreq := fr\<rparr>))))"

subsection \<open>Sizes\<close>

text \<open>\<open>while (numCodegens > 4 && this.codegenFreq[codegenOrder[numCodegens - 1]] === 0) { numCodegens--; }\<close>\<close>

function trimCodegens :: "int list \<Rightarrow> int \<Rightarrow> int" where
  "trimCodegens fr numCodegens =
     (if numCodegens > 4 \<and>
         (case num_get codegenOrder (numCodegens - 1) of
            None \<Rightarrow> False
          | Some ord \<Rightarrow> num_get fr ord = Some 0)
      then trimCodegens fr (numCodegens - 1) else numCodegens)"
  by pat_completeness auto
termination
  by (relation "measure (\<lambda>(fr, numCodegens). nat numCodegens)") auto

declare trimCodegens.simps [simp del]

text \<open>Arithmetic on a sum type: the first error of the operands, in order.\<close>

definition plusE :: "js_error + int \<Rightarrow> js_error + int \<Rightarrow> js_error + int" where
  "plusE a b = (case a of Inl e \<Rightarrow> Inl e | Inr x \<Rightarrow> (case b of Inl e \<Rightarrow> Inl e | Inr y \<Rightarrow> Inr (x + y)))"

text \<open>
  \<open>dynamicSize(litEnc, offEnc, extraBits)\<close> returns \<open>[size, numCodegens]\<close>.  Reading
  \<open>codegenFreq[16..18]\<close> of a shorter array gives \<open>NaN\<close> and is not followed.
\<close>

definition dynamicSize ::
  "huffmanBitWriter \<Rightarrow> encoder \<Rightarrow> encoder \<Rightarrow> int \<Rightarrow> (int \<times> int, huffmanBitWriter) outcome" where
  "dynamicSize w litEnc offEnc extraBits =
     (let numCodegens = trimCodegens (codegenFreq w) (int (length (codegenFreq w))) in
      case bitLength (codegenEncoding w) (js_slice (codegenFreq w) 0 (int (length (codegenFreq w)))) of
        Inl e \<Rightarrow> Threw e w
      | Inr cgBits \<Rightarrow>
         (case (num_get (codegenFreq w) 16, num_get (codegenFreq w) 17, num_get (codegenFreq w) 18) of
            (Some f16, Some f17, Some f18) \<Rightarrow>
              let header = 3 + 5 + 5 + 4 + 3 * numCodegens + cgBits + f16 * 2 + f17 * 3 + f18 * 7 in
              (case plusE (bitLength litEnc (literalFreq w)) (bitLength offEnc (offsetFreq w)) of
                 Inl e \<Rightarrow> Threw e w
               | Inr b \<Rightarrow> Returned (header + b + extraBits, numCodegens) w)
          | _ \<Rightarrow> Unmodelled))"

definition fixedSize :: "huffmanBitWriter \<Rightarrow> int \<Rightarrow> js_error + int" where
  "fixedSize w extraBits =
     plusE (plusE (plusE (Inr 3) (bitLength fixedLiteralEncoding (literalFreq w)))
              (bitLength fixedOffsetEncoding (offsetFreq w)))
       (Inr extraBits)"

text \<open>\<open>storedSize(inBytes: Uint8Array | null)\<close>\<close>

definition storedSize :: "int list option \<Rightarrow> int \<times> bool" where
  "storedSize inBytes =
     (case inBytes of
        None \<Rightarrow> (0, False)
      | Some b \<Rightarrow>
          if int (length b) \<le> MAX_STORE_BLOCK_SIZE then ((int (length b) + 5) * 8, True)
          else (0, False))"

subsection \<open>Block headers\<close>

text \<open>\<open>for (let i = 0; i < numCodegens; i++) { ... this.writeBits(value, 3); }\<close>\<close>

function header_lens :: "huffmanBitWriter \<Rightarrow> int \<Rightarrow> int \<Rightarrow> (unit, huffmanBitWriter) outcome" where
  "header_lens w i numCodegens =
     (if i < numCodegens then
        (case (case num_get codegenOrder i of
                 None \<Rightarrow> None
               | Some ord \<Rightarrow> js_get (codes (codegenEncoding w)) ord) of
           None \<Rightarrow> Threw TypeError w
         | Some h \<Rightarrow>
             (case writeBits w (len h) 3 of
                Returned _ w1 \<Rightarrow> header_lens w1 (i + 1) numCodegens
              | other \<Rightarrow> other))
      else Returned () w)"
  by pat_completeness auto
termination
  by (relation "measure (\<lambda>(w, i, numCodegens). nat (numCodegens - i))") auto

declare header_lens.simps [simp del]

text \<open>
  The loop \<open>while (true)\<close> of \<open>writeDynamicHeader\<close>, from index \<open>i\<close> of
  \<open>this.codegen\<close>, which \<open>writeCode\<close> and \<open>writeBits\<close> leave alone (\<open>cg\<close>).  Past
  the buffer \<open>codeWord\<close> is \<open>undefined\<close>: \<open>writeCode(undefined)\<close> throws, unless
  \<open>err\<close> is set, in which case it returns and the loop never ends.  An \<open>undefined\<close>
  operand of \<open><<\<close> counts as 0.
\<close>

function header_codes :: "int list \<Rightarrow> huffmanBitWriter \<Rightarrow> nat \<Rightarrow> (unit, huffmanBitWriter) outcome" where
  "header_codes cg w i =
     (if i \<ge> length cg then (if err w \<noteq> None then Diverged else Threw TypeError w)
      else
        let codeWord = cg ! i in
        if codeWord = BAD_CODE then Returned () w
        else
          (case writeCode w (js_get (codes (codegenEncoding w)) codeWord) of
             Returned _ w1 \<Rightarrow>
               (if codeWord = 16 \<or> codeWord = 17 \<or> codeWord = 18 then
                  (case writeBits w1 (case num_get cg (int i + 1) of None \<Rightarrow> 0 | Some v \<Rightarrow> v)
                          (if codeWord = 16 then 2 else if codeWord = 17 then 3 else 7) of
                     Returned _ w2 \<Rightarrow> header_codes cg w2 (i + 2)
                   | other \<Rightarrow> other)
                else header_codes cg w1 (i + 1))
           | other \<Rightarrow> other))"
  by pat_completeness auto
termination
  by (relation "measure (\<lambda>(cg, w, i). Suc (length cg) - i)") auto

declare header_codes.simps [simp del]

definition writeDynamicHeader ::
  "huffmanBitWriter \<Rightarrow> int \<Rightarrow> int \<Rightarrow> int \<Rightarrow> bool \<Rightarrow> (unit, huffmanBitWriter) outcome" where
  "writeDynamicHeader w numLiterals numOffsets numCodegens isEof =
     (if err w \<noteq> None then Returned () w
      else
        let firstBits = (if isEof then 5 else 4) in
        andThen (writeBits w firstBits 3) (\<lambda>_ w1.
        andThen (writeBits w1 (numLiterals - 257) 5) (\<lambda>_ w2.
        andThen (writeBits w2 (numOffsets - 1) 5) (\<lambda>_ w3.
        andThen (writeBits w3 (numCodegens - 4) 4) (\<lambda>_ w4.
        andThen (header_lens w4 0 numCodegens) (\<lambda>_ w5.
        header_codes (codegen w5) w5 0))))))"

definition writeStoredHeader :: "huffmanBitWriter \<Rightarrow> int \<Rightarrow> bool \<Rightarrow> (unit, huffmanBitWriter) outcome" where
  "writeStoredHeader w n isEof =
     (if err w \<noteq> None then Returned () w
      else
        let flag = (if isEof then 1 else 0) in
        andThen (writeBits w flag 3) (\<lambda>_ w1.
        andThen (flush w1) (\<lambda>_ w2.
        andThen (writeBits w2 n 16) (\<lambda>_ w3.
        writeBits w3 (js_not n) 16))))"

definition writeFixedHeader :: "huffmanBitWriter \<Rightarrow> bool \<Rightarrow> (unit, huffmanBitWriter) outcome" where
  "writeFixedHeader w isEof =
     (if err w \<noteq> None then Returned () w
      else writeBits w (if isEof then 3 else 2) 3)"

subsection \<open>\<open>indexTokens\<close> and \<open>writeTokens\<close>\<close>

text \<open>
  The loop of \<open>indexTokens\<close> over the tokens, on \<open>(literalFreq, offsetFreq)\<close>.  An
  increment at a negative or \<open>NaN\<close> index sets a property that is no element and
  leaves the array as it is; an increment past the array is not followed (\<open>None\<close>).
\<close>

definition bump_at :: "int list \<Rightarrow> int option \<Rightarrow> int list option" where
  "bump_at xs i =
     (case i of
        None \<Rightarrow> Some xs
      | Some j \<Rightarrow> if j < 0 then Some xs else bump xs j)"

fun count_tokens :: "token list \<Rightarrow> int list \<Rightarrow> int list \<Rightarrow> (int list \<times> int list) option" where
  "count_tokens [] lf off = Some (lf, off)"
| "count_tokens (t # ts) lf off =
     (if tvalue t < MATCH_TYPE then
        (case bump_at lf (Some (literal_tok t)) of
           None \<Rightarrow> None
         | Some lf' \<Rightarrow> count_tokens ts lf' off)
      else
        (case bump_at lf (map_option (\<lambda>c. LENGTH_CODES_START + c) (lengthCode (length_tok t))) of
           None \<Rightarrow> None
         | Some lf' \<Rightarrow>
            (case bump_at off (offsetCode (offset t)) of
               None \<Rightarrow> None
             | Some off' \<Rightarrow> count_tokens ts lf' off')))"

text \<open>\<open>while (this.literalFreq[numLiterals - 1] === 0) { numLiterals--; }\<close>: below
  index 0 the read is \<open>undefined\<close> and the loop stops.\<close>

function trimLiterals :: "int list \<Rightarrow> int \<Rightarrow> int" where
  "trimLiterals lf numLiterals =
     (if num_get lf (numLiterals - 1) = Some 0 then trimLiterals lf (numLiterals - 1)
      else numLiterals)"
  by pat_completeness auto
termination
  by (relation "measure (\<lambda>(lf, numLiterals). nat numLiterals)")
     (auto simp: num_get_def split: if_splits)

declare trimLiterals.simps [simp del]

text \<open>\<open>while (numOffsets > 0 && this.offsetFreq[numOffsets - 1] === 0) { numOffsets--; }\<close>\<close>

function trimOffsets :: "int list \<Rightarrow> int \<Rightarrow> int" where
  "trimOffsets off numOffsets =
     (if numOffsets > 0 \<and> num_get off (numOffsets - 1) = Some 0 then trimOffsets off (numOffsets - 1)
      else numOffsets)"
  by pat_completeness auto
termination
  by (relation "measure (\<lambda>(off, numOffsets). nat numOffsets)") auto

declare trimOffsets.simps [simp del]

text \<open>Running a method of one of the writer's encoders, and storing the encoder back.\<close>

definition on_literalEncoding ::
  "huffmanBitWriter \<Rightarrow> (encoder \<Rightarrow> (unit, encoder) outcome) \<Rightarrow> (unit, huffmanBitWriter) outcome" where
  "on_literalEncoding w f =
     (case f (literalEncoding w) of
        Returned _ e \<Rightarrow> Returned () (w\<lparr>literalEncoding := e\<rparr>)
      | Threw x e \<Rightarrow> Threw x (w\<lparr>literalEncoding := e\<rparr>)
      | Diverged \<Rightarrow> Diverged
      | Unmodelled \<Rightarrow> Unmodelled)"

definition on_offsetEncoding ::
  "huffmanBitWriter \<Rightarrow> (encoder \<Rightarrow> (unit, encoder) outcome) \<Rightarrow> (unit, huffmanBitWriter) outcome" where
  "on_offsetEncoding w f =
     (case f (offsetEncoding w) of
        Returned _ e \<Rightarrow> Returned () (w\<lparr>offsetEncoding := e\<rparr>)
      | Threw x e \<Rightarrow> Threw x (w\<lparr>offsetEncoding := e\<rparr>)
      | Diverged \<Rightarrow> Diverged
      | Unmodelled \<Rightarrow> Unmodelled)"

definition on_codegenEncoding ::
  "huffmanBitWriter \<Rightarrow> (encoder \<Rightarrow> (unit, encoder) outcome) \<Rightarrow> (unit, huffmanBitWriter) outcome" where
  "on_codegenEncoding w f =
     (case f (codegenEncoding w) of
        Returned _ e \<Rightarrow> Returned () (w\<lparr>codegenEncoding := e\<rparr>)
      | Threw x e \<Rightarrow> Threw x (w\<lparr>codegenEncoding := e\<rparr>)
      | Diverged \<Rightarrow> Diverged
      | Unmodelled \<Rightarrow> Unmodelled)"

definition indexTokens :: "huffmanBitWriter \<Rightarrow> token list \<Rightarrow> (int \<times> int, huffmanBitWriter) outcome" where
  "indexTokens w tokens =
     (case count_tokens tokens (map (\<lambda>_. 0) (literalFreq w)) (map (\<lambda>_. 0) (offsetFreq w)) of
        None \<Rightarrow> Unmodelled
      | Some (lf, off) \<Rightarrow>
          let numLiterals = trimLiterals lf (int (length lf));
              numOffsets0 = trimOffsets off (int (length off));
              off1 = (if numOffsets0 = 0 then (if off = [] then [1] else off[0 := 1]) else off);
              numOffsets = (if numOffsets0 = 0 then 1 else numOffsets0);
              w1 = w\<lparr>literalFreq := lf, offsetFreq := off1\<rparr>
          in andThen (on_literalEncoding w1 (\<lambda>e. generate e (literalFreq w1) 15)) (\<lambda>_ w2.
             andThen (on_offsetEncoding w2 (\<lambda>e. generate e (offsetFreq w2) 15)) (\<lambda>_ w3.
             Returned (numLiterals, numOffsets) w3)))"

text \<open>\<open>writeTokens(tokens, leCodes, oeCodes)\<close>; a comparison \<open>undefined > 0\<close> is false.\<close>

fun writeTokens_from ::
  "huffmanBitWriter \<Rightarrow> token list \<Rightarrow> hcode option list \<Rightarrow> hcode option list
   \<Rightarrow> (unit, huffmanBitWriter) outcome" where
  "writeTokens_from w [] leCodes oeCodes = Returned () w"
| "writeTokens_from w (t # ts) leCodes oeCodes =
     (if tvalue t < MATCH_TYPE then
        andThen (writeCode w (js_get leCodes (literal_tok t)))
          (\<lambda>_ w1. writeTokens_from w1 ts leCodes oeCodes)
      else
        let n = length_tok t;
            lCode = lengthCode n
        in
        andThen (writeCode w (case lCode of None \<Rightarrow> None
                              | Some c \<Rightarrow> js_get leCodes (c + LENGTH_CODES_START))) (\<lambda>_ w1.
        andThen (case (case lCode of None \<Rightarrow> None | Some c \<Rightarrow> num_get LENGTH_EXTRA_BITS c) of
                   None \<Rightarrow> Returned () w1
                 | Some extraLengthBits \<Rightarrow>
                     if extraLengthBits > 0
                     then writeBits w1 (n - LENGTH_BASE ! nat (the lCode)) extraLengthBits
                     else Returned () w1) (\<lambda>_ w2.
        let off = offset t;
            oCode = offsetCode off
        in
        andThen (writeCode w2 (case oCode of None \<Rightarrow> None | Some c \<Rightarrow> js_get oeCodes c)) (\<lambda>_ w3.
        andThen (case (case oCode of None \<Rightarrow> None | Some c \<Rightarrow> num_get OFFSET_EXTRA_BITS c) of
                   None \<Rightarrow> Returned () w3
                 | Some extraOffsetBits \<Rightarrow>
                     if extraOffsetBits > 0
                     then writeBits w3 (off - OFFSET_BASE ! nat (the oCode)) extraOffsetBits
                     else Returned () w3) (\<lambda>_ w4.
        writeTokens_from w4 ts leCodes oeCodes)))))"

definition writeTokens ::
  "huffmanBitWriter \<Rightarrow> token list \<Rightarrow> hcode option list \<Rightarrow> hcode option list
   \<Rightarrow> (unit, huffmanBitWriter) outcome" where
  "writeTokens w tokens leCodes oeCodes =
     (if err w \<noteq> None then Returned () w else writeTokens_from w tokens leCodes oeCodes)"

subsection \<open>\<open>histogram\<close>\<close>

text \<open>
  \<open>histogram(b, h)\<close> receives a reference to the caller's array.  To follow which
  array each store goes to, arrays of numbers live in a store: a map from addresses to
  arrays, with the next free address.  An element of such an array is a number or
  \<open>None\<close>, which stands for a hole and for \<open>NaN\<close>.  \<open>h.slice(0, 256)\<close> allocates a
  new array.
\<close>

record store =
  cells :: "nat \<Rightarrow> int option list option"
  next_addr :: nat

definition alloc :: "store \<Rightarrow> int option list \<Rightarrow> store \<times> nat" where
  "alloc st xs =
     (st\<lparr>cells := (cells st)(next_addr st \<mapsto> xs), next_addr := Suc (next_addr st)\<rparr>, next_addr st)"

text \<open>
  \<open>h[t]++\<close> on the array at address \<open>a\<close>: a number is incremented, anything else
  becomes \<open>NaN\<close>; past the end the array is extended; a negative index is no element.
\<close>

definition incr_elem :: "int option list \<Rightarrow> int \<Rightarrow> int option list" where
  "incr_elem xs t =
     (if t < 0 then xs
      else if nat t < length xs then xs[nat t := map_option (\<lambda>v. v + 1) (xs ! nat t)]
      else xs @ replicate (nat t - length xs) None @ [None])"

definition incr_cell :: "store \<Rightarrow> nat \<Rightarrow> int \<Rightarrow> store" where
  "incr_cell st a t =
     (case cells st a of
        None \<Rightarrow> st
      | Some xs \<Rightarrow> st\<lparr>cells := (cells st)(a \<mapsto> incr_elem xs t)\<rparr>)"

fun histogram_loop :: "store \<Rightarrow> int list \<Rightarrow> nat \<Rightarrow> store" where
  "histogram_loop st [] h = st"
| "histogram_loop st (t # b) h = histogram_loop (incr_cell st h t) b h"

text \<open>
  \<open>function histogram(b, h) { h = h.slice(0, 256); for (const t of b) { h[t]++; } }\<close>:
  the parameter \<open>h\<close> is rebound to the address of the copy.
\<close>

definition histogram :: "store \<Rightarrow> int list \<Rightarrow> nat \<Rightarrow> store" where
  "histogram st b h =
     (case cells st h of
        None \<Rightarrow> st
      | Some xs \<Rightarrow>
          (case alloc st (js_slice xs 0 256) of
             (st1, h1) \<Rightarrow> histogram_loop st1 b h1))"

subsection \<open>\<open>writeBlock\<close>, \<open>writeBlockDynamic\<close>, \<open>writeBlockHuff\<close>\<close>

text \<open>\<open>for (let c = lo; c < hi; c++) { extraBits += freq[c] * table[c - base]; }\<close>; \<open>None\<close>
  where an operand is \<open>undefined\<close>.\<close>

function extra_sum :: "int list \<Rightarrow> int list \<Rightarrow> int \<Rightarrow> int \<Rightarrow> int \<Rightarrow> int \<Rightarrow> int option" where
  "extra_sum fr table base c hi extraBits =
     (if c < hi then
        (case (num_get fr c, num_get table (c - base)) of
           (Some f, Some x) \<Rightarrow> extra_sum fr table base (c + 1) hi (extraBits + f * x)
         | _ \<Rightarrow> None)
      else Some extraBits)"
  by pat_completeness auto
termination
  by (relation "measure (\<lambda>(fr, table, base, c, hi, extraBits). nat (hi - c))") auto

declare extra_sum.simps [simp del]

text \<open>The test \<open>storable && ssize < (size + size >> 4)\<close> of \<open>writeBlockDynamic\<close> and
  \<open>writeBlockHuff\<close>: \<open>+\<close> binds tighter than \<open>>>\<close>.\<close>

definition storeInstead :: "bool \<Rightarrow> int \<Rightarrow> int \<Rightarrow> bool" where
  "storeInstead storable ssize sz = (storable \<and> ssize < js_sar (sz + sz) 4)"

text \<open>\<open>input.length\<close> throws when \<open>input\<close> is null.\<close>

definition writeStored :: "huffmanBitWriter \<Rightarrow> int list option \<Rightarrow> bool \<Rightarrow> (unit, huffmanBitWriter) outcome" where
  "writeStored w input eof =
     (case input of
        None \<Rightarrow> Threw TypeError w
      | Some b \<Rightarrow> andThen (writeStoredHeader w (int (length b)) eof) (\<lambda>_ w1. writeBytes w1 b))"

definition writeBlock ::
  "huffmanBitWriter \<Rightarrow> token list \<Rightarrow> bool \<Rightarrow> int list option \<Rightarrow> (unit, huffmanBitWriter) outcome" where
  "writeBlock w tokens0 eof input =
     (if err w \<noteq> None then Returned () w
      else
        let tokens = tokens0 @ [Token END_BLOCK_MARKER] in
        andThen (indexTokens w tokens) (\<lambda>(numLiterals, numOffsets) w1.
        case storedSize input of (ssize, storable) \<Rightarrow>
        (case (if storable then
                 (case extra_sum (literalFreq w1) LENGTH_EXTRA_BITS LENGTH_CODES_START
                         (LENGTH_CODES_START + 8) numLiterals 0 of
                    None \<Rightarrow> None
                  | Some x \<Rightarrow> extra_sum (offsetFreq w1) OFFSET_EXTRA_BITS 0 4 numOffsets x)
               else Some 0) of
           None \<Rightarrow> Unmodelled
         | Some extraBits \<Rightarrow>
            (case fixedSize w1 extraBits of
               Inl e \<Rightarrow> Threw e w1
             | Inr fixed \<Rightarrow>
                andThen (generateCodegen w1 numLiterals numOffsets (literalEncoding w1) (offsetEncoding w1))
                  (\<lambda>_ w2.
                andThen (on_codegenEncoding w2
                           (\<lambda>e. generate e (js_slice (codegenFreq w2) 0 (int (length (codegenFreq w2)))) 7))
                  (\<lambda>_ w3.
                andThen (dynamicSize w3 (literalEncoding w3) (offsetEncoding w3) extraBits)
                  (\<lambda>(dynSize, numCodegens) w4.
                let useDynamic = dynSize < fixed;
                    sz = (if useDynamic then dynSize else fixed)
                in if storable \<and> ssize < sz then writeStored w4 input eof
                   else
                     andThen (if \<not> useDynamic then writeFixedHeader w4 eof
                              else writeDynamicHeader w4 numLiterals numOffsets numCodegens eof)
                       (\<lambda>_ w5.
                     if useDynamic
                     then writeTokens w5 tokens (codes (literalEncoding w5)) (codes (offsetEncoding w5))
                     else writeTokens w5 tokens (codes fixedLiteralEncoding) (codes fixedOffsetEncoding)))))))))"

definition writeBlockDynamic ::
  "huffmanBitWriter \<Rightarrow> token list \<Rightarrow> bool \<Rightarrow> int list option \<Rightarrow> (unit, huffmanBitWriter) outcome" where
  "writeBlockDynamic w tokens0 eof input =
     (if err w \<noteq> None then Returned () w
      else
        let tokens = tokens0 @ [Token END_BLOCK_MARKER] in
        andThen (indexTokens w tokens) (\<lambda>(numLiterals, numOffsets) w1.
        andThen (generateCodegen w1 numLiterals numOffsets (literalEncoding w1) (offsetEncoding w1))
          (\<lambda>_ w2.
        andThen (on_codegenEncoding w2
                   (\<lambda>e. generate e (js_slice (codegenFreq w2) 0 (int (length (codegenFreq w2)))) 7))
          (\<lambda>_ w3.
        andThen (dynamicSize w3 (literalEncoding w3) (offsetEncoding w3) 0)
          (\<lambda>(sz, numCodegens) w4.
        case storedSize input of (ssize, storable) \<Rightarrow>
        if storeInstead storable ssize sz then writeStored w4 input eof
        else
          andThen (writeDynamicHeader w4 numLiterals numOffsets numCodegens eof) (\<lambda>_ w5.
          writeTokens w5 tokens (codes (literalEncoding w5)) (codes (offsetEncoding w5))))))))"

text \<open>
  \<open>huffOffset.instance()\<close>: the singleton if there is one, else a new encoder on which
  \<open>generate\<close> is run and which becomes the singleton when \<open>generate\<close> returns.
\<close>

definition huffOffset_instance :: "huffmanBitWriter \<Rightarrow> (encoder, huffmanBitWriter) outcome" where
  "huffOffset_instance w =
     (case singleton w of
        Some e \<Rightarrow> Returned e w
      | None \<Rightarrow>
          (case generate (HuffmanEncoder (nat OFFSET_CODE_COUNT))
                  ((replicate (nat OFFSET_CODE_COUNT) 0)[0 := 1]) 15 of
             Returned _ e \<Rightarrow> Returned e (w\<lparr>singleton := Some e\<rparr>)
           | Threw x e \<Rightarrow> Threw x w
           | Diverged \<Rightarrow> Diverged
           | Unmodelled \<Rightarrow> Unmodelled))"

text \<open>
  The first statements of \<open>writeBlockHuff\<close> after its guard: clear the histogram, call
  \<open>histogram(input, this.literalFreq)\<close>, set \<open>literalFreq[END_BLOCK_MARKER] = 1\<close> and
  \<open>offsetFreq[0] = 1\<close>.  The array \<open>literalFreq\<close> is put into a store for the call and
  read back after it.  An array that holds \<open>NaN\<close> and a store of \<open>literalFreq[256]\<close>
  past the array are not followed (\<open>None\<close>).
\<close>

definition huff_frequencies :: "huffmanBitWriter \<Rightarrow> int list \<Rightarrow> huffmanBitWriter option" where
  "huff_frequencies w input =
     (case alloc \<lparr>cells = Map.empty, next_addr = 0\<rparr> (map (\<lambda>_. Some 0) (literalFreq w)) of
        (st, h) \<Rightarrow>
          (case cells (histogram st input h) h of
             None \<Rightarrow> None
           | Some ys \<Rightarrow>
              (case those ys of
                 None \<Rightarrow> None
               | Some lf \<Rightarrow>
                   if END_BLOCK_MARKER < int (length lf) then
                     Some (w\<lparr>literalFreq := lf[nat END_BLOCK_MARKER := 1],
                             offsetFreq := (if offsetFreq w = [] then [1] else (offsetFreq w)[0 := 1])\<rparr>)
                   else None)))"

text \<open>
  The inlined bit writing of \<open>writeBlockHuff\<close>, \<open>for (const t of input) { ... }\<close>, with
  the local \<open>n\<close>.  The result is the writer and \<open>n\<close> with a flag: \<open>False\<close> for the early
  \<open>return\<close> after a failed write.
\<close>

fun huff_loop ::
  "huffmanBitWriter \<Rightarrow> hcode option list \<Rightarrow> int list \<Rightarrow> int \<Rightarrow> (int \<times> bool, huffmanBitWriter) outcome" where
  "huff_loop w encoding [] n = Returned (n, True) w"
| "huff_loop w encoding (t # ts) n =
     (case js_get encoding t of
        None \<Rightarrow> Threw TypeError w
      | Some c \<Rightarrow>
          let w1 = w\<lparr>bits := js_or (bits w) (js_shl (code c) (nbits w)), nbits := nbits w + len c\<rparr> in
          if nbits w1 < 48 then huff_loop w1 encoding ts n
          else
            let bits0 = bits w1;
                w2 = w1\<lparr>bits := js_sar (bits w1) 48, nbits := nbits w1 - 48\<rparr>;
                local = store6 (js_slice (bytes w2) n (n + 6)) bits0;
                n1 = n + 6
            in if n1 < BUFFER_FLUSH_SIZE then huff_loop w2 encoding ts n1
               else
                 andThen (write_out w2 (js_slice (bytes w2) 0 n1)) (\<lambda>_ w3.
                 if err w3 \<noteq> None then Returned (n1, False) w3
                 else huff_loop w3 encoding ts 0))"

text \<open>
  The statements of \<open>writeBlockHuff\<close> that follow
  \<open>this.literalEncoding.generate(this.literalFreq, 15)\<close>, from the writer as that call
  leaves it.
\<close>

definition huff_encode ::
  "huffmanBitWriter \<Rightarrow> bool \<Rightarrow> int list \<Rightarrow> (unit, huffmanBitWriter) outcome" where
  "huff_encode w2 eof input =
     (let numLiterals = END_BLOCK_MARKER + 1;
          numOffsets = 1
      in
      andThen (huffOffset_instance w2) (\<lambda>offEnc w3.
      andThen (generateCodegen w3 numLiterals numOffsets (literalEncoding w3) offEnc) (\<lambda>_ w4.
      andThen (on_codegenEncoding w4
                 (\<lambda>e. generate e (js_slice (codegenFreq w4) 0 (int (length (codegenFreq w4)))) 7))
        (\<lambda>_ w5.
      andThen (huffOffset_instance w5) (\<lambda>offEnc2 w6.
      andThen (dynamicSize w6 (literalEncoding w6) offEnc2 0) (\<lambda>(sz, numCodegens) w7.
      case storedSize (Some input) of (ssize, storable) \<Rightarrow>
      if storeInstead storable ssize sz then writeStored w7 (Some input) eof
      else
        andThen (writeDynamicHeader w7 numLiterals numOffsets numCodegens eof) (\<lambda>_ w8.
        let encoding = js_slice (codes (literalEncoding w8)) 0 257 in
        andThen (huff_loop w8 encoding input (nbytes w8)) (\<lambda>(n, finished) w9.
        if \<not> finished then Returned () w9
        else writeCode (w9\<lparr>nbytes := n\<rparr>) (js_get encoding END_BLOCK_MARKER)))))))))"

text \<open>
  \<open>writeBlockHuff(eof, input)\<close>: the guard, the frequencies, the literal code generated
  from \<open>this.literalFreq\<close>, then the rest.
\<close>

definition writeBlockHuff ::
  "huffmanBitWriter \<Rightarrow> bool \<Rightarrow> int list \<Rightarrow> (unit, huffmanBitWriter) outcome" where
  "writeBlockHuff w eof input =
     (if err w \<noteq> None then Returned () w
      else
        (case huff_frequencies w input of
           None \<Rightarrow> Unmodelled
         | Some w1 \<Rightarrow>
            andThen (on_literalEncoding w1 (\<lambda>e. generate e (literalFreq w1) 15))
              (\<lambda>_ w2. huff_encode w2 eof input)))"

section \<open>Concrete states used below\<close>

text \<open>A sink that accepts every write, and a writer whose sticky error is set.\<close>

definition open_sink :: sink where
  "open_sink = \<lparr> received = [], budget = None \<rparr>"

definition failed_writer :: huffmanBitWriter where
  "failed_writer =
     (HuffmanBitWriter open_sink)\<lparr>bits := 5, nbits := 3, err := Some (Error ''write failed'')\<rparr>"

text \<open>An encoder whose code table holds \<open>n\<close> entries \<open>new Hcode()\<close>, as the type
  \<open>Hcode[]\<close> of \<open>codes\<close> promises.\<close>

definition blank_encoder :: "nat \<Rightarrow> encoder" where
  "blank_encoder n = (HuffmanEncoder n)\<lparr>codes := replicate n (Some (Hcode 0 0))\<rparr>"

section \<open>Properties\<close>


lemma MATCH_TYPE_value: "MATCH_TYPE = 1073741824"
  by (simp add: MATCH_TYPE_def js_shl_def toInt32_def)

lemma OFFSET_MASK_value: "OFFSET_MASK = 4194303"
  by (simp add: OFFSET_MASK_def LENGTH_SHIFT_def js_shl_def toInt32_def)

lemma bitlen_0: "bitlen 0 = 0"
  by (subst bitlen.simps) simp

lemma bitlen_Suc_0: "bitlen (Suc 0) = Suc 0"
  by (subst bitlen.simps) (simp add: bitlen_0)

lemma bitlen_numeral: "bitlen (numeral k) = Suc (bitlen (numeral k div 2))"
  by (subst bitlen.simps) simp

lemmas bitlen_eval = bitlen_0 bitlen_Suc_0 bitlen_numeral

text \<open>
  Claim C3, at \<open>xlength = 1\<close>, \<open>xoffset = 1\<close>: the token built by
  \<open>matchToken\<close> has value \<open>(2^30 + 1) << 23 = 2^23\<close>; bit 30 is clear (the writers
  take it for a literal), \<open>length()\<close> returns \<open>-254\<close> instead of 1 and
  \<open>offset()\<close> returns 0 instead of 1.
\<close>

theorem matchToken_one_one:
  "matchToken 1 1 = Token 8388608
   \<and> \<not> isMatch (matchToken 1 1)
   \<and> \<not> bit (tvalue (matchToken 1 1)) 30
   \<and> length_tok (matchToken 1 1) = - 254
   \<and> offset (matchToken 1 1) = 0"
  by (simp add: matchToken_def isMatch_def length_tok_def offset_def MATCH_TYPE_value
      OFFSET_MASK_value LENGTH_SHIFT_def js_shl_def js_sar_def js_and_def toInt32_def
      bit_iff_odd)

text \<open>
  Claim C7, at \<open>u = 9\<close>: the product \<open>9 * 0x1e35a7bd = 4561495461\<close> exceeds
  \<open>2^32\<close> and is not reduced, so \<open>hash\<close> returns \<open>17400\<close>, which is not below
  \<open>2^14\<close>; the top 14 bits of the 32-bit product are \<open>1016\<close>.
\<close>

theorem hash_nine:
  "hash (Number 9) = 17400
   \<and> \<not> hash (Number 9) < 2 ^ 14
   \<and> ((9 * 506832829) mod 2 ^ 32) div 2 ^ 18 = (1016 :: int)"
  by (simp add: hash_def roundDouble_def TABLE_SHIFT_def TABLE_BITS_def Let_def bitlen_eval)

subsection \<open>Evaluation helpers\<close>

lemmas arr_eval = js_get_def js_set_def js_slice_def num_get_def ta_set_def toUint8_def Let_def

lemma list_update_numeral: "(x # xs)[numeral k := y] = x # xs[pred_numeral k := y]"
  by (simp add: numeral_eq_Suc)

lemma replicate_numeral: "replicate (numeral k) x = x # replicate (pred_numeral k) x"
  by (simp add: numeral_eq_Suc)

lemma upt_0_16: "[0..<16] = [0, 1, 2, 3, 4, 5, 6, 7, 8, 9, 10, 11, 12, 13, 14, 15]"
  by (simp add: upt_conv_Cons)

lemma MAX_values: "MAX_INT32 = 28" "MAX_UINT16 = 13"
  by (simp_all add: MAX_INT32_def MAX_UINT16_def toInt32_def)

subsection \<open>The Huffman encoder\<close>

text \<open>
  Claim C5, at an encoder of two symbols and the frequencies \<open>[5, 7]\<close>.  On
  \<open>new HuffmanEncoder(2)\<close> the code table holds \<open>undefined\<close> and \<open>generate\<close> throws a
  TypeError at \<open>this.codes[0].set(0, 1)\<close>.  On a table of two \<open>Hcode\<close> objects it
  returns, but the loop runs over the whole of \<open>list\<close> (the source's
  \<open>list = list[:count]\<close> is a comment), whose third entry is \<open>new LiteralNode()\<close> with
  literal 0: symbol 0 ends with code value 2 instead of 0.  At the frequencies \<open>[0]\<close> the
  symbol of frequency 0 ends with length 1.
\<close>

theorem generate_two_symbols:
  "generate (HuffmanEncoder 2) [5, 7] 15 = Threw TypeError (HuffmanEncoder 2)
   \<and> generate (blank_encoder 2) [5, 7] 15
       = Returned () ((blank_encoder 2)\<lparr>codes := [Some (Hcode 2 1), Some (Hcode 1 1)]\<rparr>)
   \<and> generate (blank_encoder 1) [0] 15
       = Returned () ((blank_encoder 1)\<lparr>codes := [Some (Hcode 1 1)]\<rparr>)"
  by (simp add: generate_def HuffmanEncoder_def blank_encoder_def arr_eval replicate_numeral)

lemma sorted_test_input:
  "js_sort compareByFreq
     [Some (LiteralNode 0 1), Some (LiteralNode 1 3), Some (LiteralNode 2 2),
      Some (LiteralNode 3 4), Some (LiteralNode 0 0)]
   = [Some (LiteralNode 0 0), Some (LiteralNode 0 1), Some (LiteralNode 2 2),
      Some (LiteralNode 1 3), Some (LiteralNode 3 4)]"
  by (simp add: js_sort_def compareByFreq_def List.map_filter_def)

lemma bitCounts_test_input:
  "bitCounts enc
     [Some (LiteralNode 0 0), Some (LiteralNode 0 1), Some (LiteralNode 2 2),
      Some (LiteralNode 1 3), Some (LiteralNode 3 4)] 7
   = BcThrew TypeError"
  by (simp add: bitCounts_def MAX_BITS_LIMIT_def arr_eval maxNode_def MAX_values upt_0_16
       list_update_numeral bitCounts_loop.simps bitCounts_step_def descend.simps)

text \<open>
  Claim C6, at the input of the repository's own test, \<open>new HuffmanEncoder(4)\<close> and
  \<open>generate([1, 3, 2, 4], 7)\<close>, for which the test expects the lengths 3, 2, 3, 1:
  \<open>bitCounts\<close> throws a TypeError (the third pass of its loop reads
  \<open>levels[0].needed\<close>, and \<open>levels[0]\<close> is undefined) and no code is assigned, on the
  new encoder and on one whose table holds \<open>Hcode\<close> objects.  Where \<open>generate\<close> does
  return, with two symbols and \<open>maxBits = 0\<close>, both lengths are 1.
\<close>

theorem generate_test_input:
  "generate (HuffmanEncoder 4) [1, 3, 2, 4] 7 = Threw TypeError (HuffmanEncoder 4)
   \<and> generate (blank_encoder 4) [1, 3, 2, 4] 7 = Threw TypeError (blank_encoder 4)
   \<and> generate (blank_encoder 2) [5, 7] 0
       = Returned () ((blank_encoder 2)\<lparr>codes := [Some (Hcode 2 1), Some (Hcode 1 1)]\<rparr>)"
  by (simp add: generate_def HuffmanEncoder_def blank_encoder_def arr_eval sorted_test_input
       bitCounts_test_input replicate_numeral)

lemma collect_defined:
  assumes "\<forall>i<length fs. fs ! i = 0 \<longrightarrow> js_get cs (int (i0 + i)) \<noteq> None"
  shows "\<exists>list' cs'. collect fs i0 list count cs
            = (Some (list', count + length (filter (\<lambda>f. f \<noteq> 0) fs), cs'), cs')
          \<and> length cs' = length cs
          \<and> (\<forall>j<length cs'. cs' ! j =
                (if i0 \<le> j \<and> j < i0 + length fs \<and> fs ! (j - i0) = 0
                 then map_option (\<lambda>h. Hcode (code h) 0) (cs ! j) else cs ! j))"
  using assms
proof (induction fs arbitrary: i0 list count cs)
  case Nil
  then show ?case by auto
next
  case (Cons f fs)
  have tail: "\<forall>i<length fs. fs ! i = 0 \<longrightarrow> js_get cs (int (Suc i0 + i)) \<noteq> None"
  proof (intro allI impI)
    fix i assume "i < length fs" "fs ! i = 0"
    then have "Suc i < length (f # fs)" "(f # fs) ! Suc i = 0" by simp_all
    with Cons.prems have "js_get cs (int (i0 + Suc i)) \<noteq> None" by blast
    then show "js_get cs (int (Suc i0 + i)) \<noteq> None" by simp
  qed
  show ?case
  proof (cases "f = 0")
    case False
    from Cons.IH [OF tail, of "js_set list count (LiteralNode (int i0) f)" "Suc count"]
    obtain list' cs' where
      c: "collect fs (Suc i0) (js_set list count (LiteralNode (int i0) f)) (Suc count) cs
            = (Some (list', Suc count + length (filter (\<lambda>f. f \<noteq> 0) fs), cs'), cs')"
      and l: "length cs' = length cs"
      and v: "\<forall>j<length cs'. cs' ! j =
                (if Suc i0 \<le> j \<and> j < Suc i0 + length fs \<and> fs ! (j - Suc i0) = 0
                 then map_option (\<lambda>h. Hcode (code h) 0) (cs ! j) else cs ! j)"
      by blast
    have "\<forall>j<length cs'. cs' ! j =
                (if i0 \<le> j \<and> j < i0 + length (f # fs) \<and> (f # fs) ! (j - i0) = 0
                 then map_option (\<lambda>h. Hcode (code h) 0) (cs ! j) else cs ! j)"
    proof (intro allI impI)
      fix j assume "j < length cs'"
      with v have e: "cs' ! j =
                (if Suc i0 \<le> j \<and> j < Suc i0 + length fs \<and> fs ! (j - Suc i0) = 0
                 then map_option (\<lambda>h. Hcode (code h) 0) (cs ! j) else cs ! j)" by blast
      show "cs' ! j =
                (if i0 \<le> j \<and> j < i0 + length (f # fs) \<and> (f # fs) ! (j - i0) = 0
                 then map_option (\<lambda>h. Hcode (code h) 0) (cs ! j) else cs ! j)"
      proof (cases "j = i0")
        case True
        with e False show ?thesis by simp
      next
        case ne: False
        show ?thesis
        proof (cases "i0 < j")
          case True
          then have "(f # fs) ! (j - i0) = fs ! (j - Suc i0)"
            by (simp add: nth_Cons')
          with e True show ?thesis by auto
        next
          case lt: False
          with ne e show ?thesis by simp
        qed
      qed
    qed
    with c l False show ?thesis by auto
  next
    case True
    have "0 < length (f # fs)" "(f # fs) ! 0 = 0" using True by simp_all
    with Cons.prems have "js_get cs (int (i0 + 0)) \<noteq> None" by blast
    then obtain c where g: "js_get cs (int i0) = Some c" by auto
    then have i0: "i0 < length cs" and ci: "cs ! i0 = Some c"
      by (auto simp: js_get_def split: if_splits)
    let ?cs1 = "cs[i0 := Some (Hcode (code c) 0)]"
    have tail1: "\<forall>i<length fs. fs ! i = 0 \<longrightarrow> js_get ?cs1 (int (Suc i0 + i)) \<noteq> None"
      using tail by (auto simp: js_get_def)
    from Cons.IH [OF tail1, of "js_set list count (LiteralNode 0 0)" count]
    obtain list' cs' where
      c: "collect fs (Suc i0) (js_set list count (LiteralNode 0 0)) count ?cs1
            = (Some (list', count + length (filter (\<lambda>f. f \<noteq> 0) fs), cs'), cs')"
      and l: "length cs' = length ?cs1"
      and v: "\<forall>j<length cs'. cs' ! j =
                (if Suc i0 \<le> j \<and> j < Suc i0 + length fs \<and> fs ! (j - Suc i0) = 0
                 then map_option (\<lambda>h. Hcode (code h) 0) (?cs1 ! j) else ?cs1 ! j)"
      by blast
    have "\<forall>j<length cs'. cs' ! j =
                (if i0 \<le> j \<and> j < i0 + length (f # fs) \<and> (f # fs) ! (j - i0) = 0
                 then map_option (\<lambda>h. Hcode (code h) 0) (cs ! j) else cs ! j)"
    proof (intro allI impI)
      fix j assume jl: "j < length cs'"
      with v have e: "cs' ! j =
                (if Suc i0 \<le> j \<and> j < Suc i0 + length fs \<and> fs ! (j - Suc i0) = 0
                 then map_option (\<lambda>h. Hcode (code h) 0) (?cs1 ! j) else ?cs1 ! j)" by blast
      show "cs' ! j =
                (if i0 \<le> j \<and> j < i0 + length (f # fs) \<and> (f # fs) ! (j - i0) = 0
                 then map_option (\<lambda>h. Hcode (code h) 0) (cs ! j) else cs ! j)"
      proof (cases "j = i0")
        case True
        with e i0 ci \<open>f = 0\<close> show ?thesis by simp
      next
        case ne: False
        show ?thesis
        proof (cases "i0 < j")
          case True
          then have "(f # fs) ! (j - i0) = fs ! (j - Suc i0)"
            by (simp add: nth_Cons')
          with e True ne show ?thesis by auto
        next
          case lt: False
          with ne e show ?thesis by simp
        qed
      qed
    qed
    with c l g True show ?thesis by auto
  qed
qed

text \<open>
  Claim C8 as stated fails: with at most two non-zero frequencies \<open>generate\<close> never
  reaches the check of \<open>maxBits\<close>, which is the first statement of \<open>bitCounts\<close>.  With
  \<open>maxBits = 16\<close> and the frequencies \<open>[5, 7]\<close> it returns and assigns codes on a table
  of \<open>Hcode\<close> objects, and throws a TypeError, not the error of \<open>bitCounts\<close>, on
  \<open>new HuffmanEncoder(2)\<close>.
\<close>

theorem generate_maxBits_16_two_symbols:
  "generate (blank_encoder 2) [5, 7] 16
     = Returned () ((blank_encoder 2)\<lparr>codes := [Some (Hcode 2 1), Some (Hcode 1 1)]\<rparr>)
   \<and> generate (HuffmanEncoder 2) [5, 7] 16 = Threw TypeError (HuffmanEncoder 2)"
  by (simp add: generate_def HuffmanEncoder_def blank_encoder_def arr_eval replicate_numeral)

lemma generate_too_large:
  assumes "16 \<le> maxBits"
    and "2 < length (filter (\<lambda>f. f \<noteq> 0) freqs)"
    and "\<forall>i<length freqs. freqs ! i = 0 \<longrightarrow> js_get (codes enc) (int i) \<noteq> None"
  shows "\<exists>cs'. generate enc freqs maxBits
             = Threw (Error ''flate: maxBits too large'') (enc\<lparr>codes := cs'\<rparr>)
          \<and> length cs' = length (codes enc)
          \<and> (\<forall>j<length cs'. cs' ! j =
                (if j < length freqs \<and> freqs ! j = 0
                 then map_option (\<lambda>h. Hcode (code h) 0) (codes enc ! j) else codes enc ! j))"
proof -
  let ?list0 = "js_slice (freqcache enc) 0 (int (length freqs) + 1)"
  from assms(3) have "\<forall>i<length freqs. freqs ! i = 0 \<longrightarrow> js_get (codes enc) (int (0 + i)) \<noteq> None"
    by simp
  from collect_defined [OF this, of ?list0 0]
  obtain list' cs' where
    c: "collect freqs 0 ?list0 0 (codes enc)
          = (Some (list', length (filter (\<lambda>f. f \<noteq> 0) freqs), cs'), cs')"
    and l: "length cs' = length (codes enc)"
    and v: "\<forall>j<length cs'. cs' ! j =
              (if 0 \<le> j \<and> j < 0 + length freqs \<and> freqs ! (j - 0) = 0
               then map_option (\<lambda>h. Hcode (code h) 0) (codes enc ! j) else codes enc ! j)"
    by auto
  have "generate enc freqs maxBits = Threw (Error ''flate: maxBits too large'') (enc\<lparr>codes := cs'\<rparr>)"
    using c assms(1,2) by (simp add: generate_def bitCounts_def MAX_BITS_LIMIT_def Let_def)
  with l v show ?thesis by auto
qed

lemma collect_count:
  "collect fs i list count cs = (Some (list', count', cs'), x)
   \<Longrightarrow> count' = count + length (filter (\<lambda>f. f \<noteq> 0) fs)"
proof (induction fs arbitrary: i list count cs)
  case Nil
  then show ?case by simp
next
  case (Cons f fs)
  show ?case
  proof (cases "f = 0")
    case False
    with Cons.prems
    have "collect fs (Suc i) (js_set list count (LiteralNode (int i) f)) (Suc count) cs
          = (Some (list', count', cs'), x)"
      by simp
    from Cons.IH [OF this] False show ?thesis by simp
  next
    case True
    with Cons.prems obtain c where
      "collect fs (Suc i) (js_set list count (LiteralNode 0 0)) count
         (cs[i := Some (Hcode (code c) 0)]) = (Some (list', count', cs'), x)"
      by (auto split: option.splits)
    from Cons.IH [OF this] True show ?thesis by simp
  qed
qed

lemma generate_small_ignores_maxBits:
  assumes "length (filter (\<lambda>f. f \<noteq> 0) freqs) \<le> 2"
  shows "generate enc freqs maxBits = generate enc freqs maxBits'"
proof -
  let ?list0 = "js_slice (freqcache enc) 0 (int (length freqs) + 1)"
  obtain r x where c: "collect freqs 0 ?list0 0 (codes enc) = (r, x)"
    by (cases "collect freqs 0 ?list0 0 (codes enc)") auto
  show ?thesis
  proof (cases r)
    case None
    with c show ?thesis by (simp add: generate_def Let_def)
  next
    case (Some t)
    obtain list' count' cs' where t: "t = (list', count', cs')"
      by (cases t) auto
    from collect_count [of freqs 0 ?list0 0 "codes enc" list' count' cs' x] c Some t assms
    have "count' \<le> 2" by simp
    with c Some t show ?thesis by (simp add: generate_def Let_def)
  qed
qed

text \<open>
  Claim C8, amended.  For every frequency vector with more than two non-zero entries
  and every \<open>maxBits \<ge> 16\<close>, on an encoder whose code table has an entry for every
  symbol of frequency 0, \<open>generate(freq, maxBits)\<close> throws the error
  \<open>flate: maxBits too large\<close>; it has assigned no code, and the only change to the code
  table is that the length of every symbol of frequency 0 is reset to 0.  For every
  frequency vector with at most two non-zero entries \<open>generate\<close> never checks
  \<open>maxBits\<close>: what it does is the same for every two values of \<open>maxBits\<close>.
\<close>

theorem generate_maxBits_too_large:
  "(16 \<le> maxBits
      \<and> 2 < length (filter (\<lambda>f. f \<noteq> 0) freqs)
      \<and> (\<forall>i<length freqs. freqs ! i = 0 \<longrightarrow> js_get (codes enc) (int i) \<noteq> None)
    \<longrightarrow> (\<exists>cs'. generate enc freqs maxBits
                  = Threw (Error ''flate: maxBits too large'') (enc\<lparr>codes := cs'\<rparr>)
               \<and> length cs' = length (codes enc)
               \<and> (\<forall>j<length cs'. cs' ! j =
                     (if j < length freqs \<and> freqs ! j = 0
                      then map_option (\<lambda>h. Hcode (code h) 0) (codes enc ! j) else codes enc ! j))))
   \<and> (length (filter (\<lambda>f. f \<noteq> 0) freqs) \<le> 2
        \<longrightarrow> generate enc freqs maxBits = generate enc freqs maxBits')"
  using generate_too_large [of maxBits freqs enc]
    generate_small_ignores_maxBits [of freqs enc maxBits maxBits']
  by blast

text \<open>The same at the frequencies \<open>[1, 0, 1, 1]\<close> with \<open>maxBits = 16\<close>, and at the
  frequencies \<open>[5, 7]\<close> with \<open>maxBits\<close> 16 and 15.\<close>

theorem generate_maxBits_too_large_witness:
  "(16::int) \<le> 16
   \<and> 2 < length (filter (\<lambda>f. f \<noteq> 0) [1, 0, 1, 1 :: int])
   \<and> (\<exists>cs'. generate (blank_encoder 4) [1, 0, 1, 1] 16
              = Threw (Error ''flate: maxBits too large'') ((blank_encoder 4)\<lparr>codes := cs'\<rparr>)
            \<and> length cs' = 4)
   \<and> length (filter (\<lambda>f. f \<noteq> 0) [5, 7 :: int]) \<le> 2
   \<and> generate (blank_encoder 2) [5, 7] 16 = generate (blank_encoder 2) [5, 7] 15"
proof -
  have h1: "(16::int) \<le> 16" by simp
  have h2: "2 < length (filter (\<lambda>f. f \<noteq> 0) [1, 0, 1, 1 :: int])" by simp
  have h3: "\<forall>i<length [1, 0, 1, 1 :: int]. [1, 0, 1, 1 :: int] ! i = 0
              \<longrightarrow> js_get (codes (blank_encoder 4)) (int i) \<noteq> None"
    by (simp add: blank_encoder_def js_get_def)
  have h4: "length (filter (\<lambda>f. f \<noteq> 0) [5, 7 :: int]) \<le> 2" by simp
  from generate_maxBits_too_large [of 16 "[1, 0, 1, 1]" "blank_encoder 4"] h1 h2 h3
  have a: "\<exists>cs'. generate (blank_encoder 4) [1, 0, 1, 1] 16
              = Threw (Error ''flate: maxBits too large'') ((blank_encoder 4)\<lparr>codes := cs'\<rparr>)
            \<and> length cs' = 4"
    by (auto simp: blank_encoder_def)
  from generate_maxBits_too_large [of 16 "[5, 7]" "blank_encoder 2" 15] h4
  have b: "generate (blank_encoder 2) [5, 7] 16 = generate (blank_encoder 2) [5, 7] 15"
    by blast
  from a b h1 h2 h4 show ?thesis by blast
qed

subsection \<open>The bit writer\<close>

text \<open>
  Claim C9: once \<open>err\<close> is set, \<open>writeBits\<close>, \<open>writeCode\<close>, \<open>writeBytes\<close>, \<open>write\<close>,
  \<open>writeBlock\<close>, \<open>writeBlockDynamic\<close> and \<open>writeBlockHuff\<close> (and the header writers and
  \<open>writeTokens\<close>) return at once and leave the whole writer, with its bit buffer, its
  staging buffer and its sink, as it was; \<open>flush\<close> returns at once too and changes
  \<open>nbits\<close> to 0 and nothing else.
\<close>

theorem sticky_err_is_noop:
  assumes "err w \<noteq> None"
  shows "writeBits w b nb = Returned () w
       \<and> writeCode w c = Returned () w
       \<and> writeBytes w bs = Returned () w
       \<and> write_out w bs = Returned () w
       \<and> writeBlock w tokens eof input = Returned () w
       \<and> writeBlockDynamic w tokens eof input = Returned () w
       \<and> writeBlockHuff w eof bs = Returned () w
       \<and> writeDynamicHeader w numLiterals numOffsets numCodegens eof = Returned () w
       \<and> writeStoredHeader w n eof = Returned () w
       \<and> writeFixedHeader w eof = Returned () w
       \<and> writeTokens w tokens leCodes oeCodes = Returned () w
       \<and> flush w = Returned () (w\<lparr>nbits := 0\<rparr>)"
  using assms
  by (simp add: writeBits_def writeCode_def writeBytes_def write_out_def writeBlock_def
      writeBlockDynamic_def writeBlockHuff_def writeDynamicHeader_def writeStoredHeader_def
      writeFixedHeader_def writeTokens_def flush_def)

text \<open>The same at a writer that holds 3 pending bits and a failed write.\<close>

theorem sticky_err_is_noop_witness:
  "err failed_writer \<noteq> None
   \<and> nbits failed_writer = 3
   \<and> writeBits failed_writer 1 1 = Returned () failed_writer
   \<and> writeCode failed_writer (Some (Hcode 1 1)) = Returned () failed_writer
   \<and> writeBytes failed_writer [1] = Returned () failed_writer
   \<and> write_out failed_writer [1] = Returned () failed_writer
   \<and> writeBlock failed_writer [] False (Some []) = Returned () failed_writer
   \<and> writeBlockDynamic failed_writer [] False (Some []) = Returned () failed_writer
   \<and> writeBlockHuff failed_writer False [1] = Returned () failed_writer
   \<and> flush failed_writer = Returned () (failed_writer\<lparr>nbits := 0\<rparr>)"
proof -
  have h: "err failed_writer \<noteq> None"
    by (simp add: failed_writer_def)
  have n: "nbits failed_writer = 3"
    by (simp add: failed_writer_def)
  from sticky_err_is_noop [OF h] h n show ?thesis
    by simp
qed

lemma fresh_fields:
  "bits (HuffmanBitWriter k) = 0" "nbits (HuffmanBitWriter k) = 0"
  "nbytes (HuffmanBitWriter k) = 0" "err (HuffmanBitWriter k) = None"
  "writer (HuffmanBitWriter k) = k" "bytes (HuffmanBitWriter k) = replicate 248 0"
  "codegen (HuffmanBitWriter k) = replicate 317 0"
  "codegenFreq (HuffmanBitWriter k) = replicate 19 0"
  "literalFreq (HuffmanBitWriter k) = replicate 286 0"
  "offsetFreq (HuffmanBitWriter k) = replicate 30 0"
  "literalEncoding (HuffmanBitWriter k) = HuffmanEncoder 286"
  by (simp_all add: HuffmanBitWriter_def BUFFER_SIZE_def BUFFER_FLUSH_SIZE_def
      MAX_NUM_LIT_def OFFSET_CODE_COUNT_def CODEGEN_CODE_COUNT_def)

lemmas bit_eval = js_or_def js_shl_def js_sar_def js_and_def toInt32_def

text \<open>
  Claim C1, on a new writer over a sink that accepts every write.  After
  \<open>writeBits(5, 3)\<close> and \<open>flush()\<close> the sink has received one write of no bytes: the
  loop of \<open>flush\<close> stores the pending byte at \<open>bytes[n]\<close> without advancing \<open>n\<close> and
  then writes \<open>bytes.slice(0, n)\<close>; the bit stream claimed is the byte 5.  After
  \<open>writeBits(0xffffff, 24)\<close> twice and \<open>flush()\<close> the sink has received six zero bytes:
  the six bytes drained from the bit buffer went to a copy of the staging buffer; the
  bit stream claimed is six bytes 255.
\<close>

theorem writeBits_flush_loses_bits:
  "(\<exists>w'. andThen (writeBits (HuffmanBitWriter open_sink) 5 3) (\<lambda>_ w. flush w) = Returned () w'
      \<and> received (writer w') = [[]] \<and> nbits w' = 0)
   \<and> (\<exists>w'. andThen (writeBits (HuffmanBitWriter open_sink) 16777215 24) (\<lambda>_ w1.
            andThen (writeBits w1 16777215 24) (\<lambda>_ w2. flush w2)) = Returned () w'
      \<and> received (writer w') = [replicate 6 0] \<and> nbits w' = 0)"
  by (simp add: writeBits_def pushBits_def flush_def flush_loop.simps write_out_def sink_write_def
      andThen_def fresh_fields open_sink_def arr_eval bit_eval BUFFER_FLUSH_SIZE_def)

subsection \<open>generateCodegen\<close>

lemma all_defined_fixedLiteral: "n \<le> 286 \<Longrightarrow> all_defined (codes fixedLiteralEncoding) n"
  by (auto simp: all_defined_def fixedLiteralEncoding_def generateFixedLiteralEncoding_def
      js_get_def MAX_NUM_LIT_def)

lemma all_defined_fixedOffset: "n \<le> 30 \<Longrightarrow> all_defined (codes fixedOffsetEncoding) n"
  by (auto simp: all_defined_def fixedOffsetEncoding_def generateFixedOffsetEncoding_def js_get_def)

lemma codegen_loop_zeros:
  "codegen_loop 317 ((replicate 317 0)[258 := 255]) (replicate 19 0) 0 1 0 (Suc 0)
   = CgDone ((replicate 317 0)[258 := 255, 0 := 18, 1 := 127, 2 := 18, 3 := 109]) 4
       ((replicate 19 0)[18 := 2])"
  by (simp add: codegen_loop.simps num_get_def BAD_CODE_def emit_run_def repeat18.simps
        emit_rest.simps bump_def ta_set_def toUint8_def Let_def)

text \<open>
  Claim C2, on a new writer with \<open>numLiterals = 257\<close>, \<open>numOffsets = 1\<close> and the two
  fixed encodings, whose code lengths are 8 (symbols 0 to 143), 9, 7 and 5.  The code
  lengths are copied into slices, which are copies, so the run-length encoder reads the
  buffer as it was, 258 zeros, and leaves \<open>18, 127, 18, 109, 255\<close> with two counts of
  symbol 18; the encoding of the code lengths starts with the length 8 of symbol 0.
\<close>

theorem generateCodegen_fixed_encodings:
  "(\<exists>w'. generateCodegen (HuffmanBitWriter open_sink) 257 1 fixedLiteralEncoding fixedOffsetEncoding
           = Returned () w'
      \<and> map (\<lambda>i. codegen w' ! i) [0, 1, 2, 3, 4] = [18, 127, 18, 109, 255]
      \<and> codegenFreq w' = (replicate 19 0)[18 := 2])
   \<and> map_option len (js_get (codes fixedLiteralEncoding) 0) = Some 8"
proof -
  have l: "length (js_slice (replicate 317 (0::int)) 0 257) = 257"
          "length (js_slice (replicate 317 (0::int)) 257 258) = 1"
    by (simp_all add: js_slice_def)
  have g: "generateCodegen (HuffmanBitWriter open_sink) 257 1 fixedLiteralEncoding fixedOffsetEncoding
           = Returned () ((HuffmanBitWriter open_sink)
               \<lparr>codegenFreq := (replicate 19 0)[18 := 2],
                codegen := (replicate 317 0)[258 := 255, 0 := 18, 1 := 127, 2 := 18, 3 := 109, 4 := 255]\<rparr>)"
    by (simp add: generateCodegen_def fresh_fields l all_defined_fixedLiteral all_defined_fixedOffset
        Let_def ta_set_def toUint8_def num_get_def BAD_CODE_def codegen_loop_zeros)
  have f: "map_option len (js_get (codes fixedLiteralEncoding) 0) = Some 8"
    by (simp add: fixedLiteralEncoding_def generateFixedLiteralEncoding_def js_get_def
        MAX_NUM_LIT_def)
  from g f show ?thesis by simp
qed

subsection \<open>writeBlockDynamic\<close>

lemma generate_first_undefined:
  assumes "freqs = 0 # fs" and "js_get (codes enc) 0 = None"
  shows "generate enc freqs maxBits = Threw TypeError enc"
  using assms by (simp add: generate_def Let_def)

lemma storedSize_empty: "storedSize (Some []) = (40, True)"
  by (simp add: storedSize_def MAX_STORE_BLOCK_SIZE_def)

lemma replicate_update_Cons:
  "0 < k \<Longrightarrow> 0 < n \<Longrightarrow> (replicate n (0::int))[k := v] = 0 # (replicate (n - 1) 0)[k - 1 := v]"
  by (cases n; cases k) simp_all

lemma indexTokens_fresh_eob:
  "\<exists>w'. indexTokens (HuffmanBitWriter k) [Token 256] = Threw TypeError w' \<and> writer w' = k"
proof -
  have c: "count_tokens [Token 256] (replicate 286 0) (replicate 30 0)
           = Some ((replicate 286 0)[256 := 1], replicate 30 0)"
    by (simp add: MATCH_TYPE_value bump_at_def bump_def literal_tok_def LITERAL_TYPE_def
        js_shl_def toInt32_def)
  have g: "generate (HuffmanEncoder 286) ((replicate 286 0)[256 := 1]) 15
           = Threw TypeError (HuffmanEncoder 286)"
    by (rule generate_first_undefined [where fs = "(replicate 285 0)[255 := 1]"])
       (simp_all add: replicate_update_Cons HuffmanEncoder_def js_get_def)
  show ?thesis
    by (simp add: indexTokens_def fresh_fields c g Let_def andThen_def on_literalEncoding_def
        del: count_tokens.simps)
qed

text \<open>
  Claim C4, on a new writer with no tokens and an input of no bytes, whose stored size
  is 40 bits.  \<open>writeBlockDynamic\<close> emits neither a stored nor a dynamic block: it
  throws a TypeError from \<open>literalEncoding.generate\<close> (\<open>this.codes[0]\<close> is undefined)
  and the sink receives nothing.  The test it would apply, \<open>ssize < (size + size >> 4)\<close>,
  compares with \<open>(size + size) >> 4\<close>: for a dynamic size of 100 bits it rejects the
  stored block although \<open>40 < 100 + 100 div 16\<close>.
\<close>

theorem writeBlockDynamic_empty_block:
  "(\<exists>w'. writeBlockDynamic (HuffmanBitWriter open_sink) [] False (Some []) = Threw TypeError w'
       \<and> received (writer w') = [])
   \<and> storedSize (Some []) = (40, True)
   \<and> \<not> storeInstead True 40 100
   \<and> (40 :: int) < 100 + 100 div 16"
proof -
  from indexTokens_fresh_eob [of open_sink] obtain w' where
    "indexTokens (HuffmanBitWriter open_sink) [Token 256] = Threw TypeError w'" "writer w' = open_sink"
    by blast
  then have "writeBlockDynamic (HuffmanBitWriter open_sink) [] False (Some []) = Threw TypeError w'
             \<and> received (writer w') = []"
    by (simp add: writeBlockDynamic_def fresh_fields END_BLOCK_MARKER_def andThen_def open_sink_def)
  then show ?thesis
    by (auto simp: storedSize_empty storeInstead_def js_sar_def toInt32_def)
qed

subsection \<open>histogram\<close>

lemma histogram_loop_frame:
  "a \<noteq> h \<Longrightarrow> cells (histogram_loop st b h) a = cells st a"
  by (induction b arbitrary: st) (auto simp: incr_cell_def split: option.splits)

lemma histogram_frame: "a < next_addr st \<Longrightarrow> cells (histogram st b h) a = cells st a"
  by (auto simp: histogram_def alloc_def histogram_loop_frame split: option.splits)

lemma those_replicate_Some: "those (replicate n (Some x)) = Some (replicate n x)"
  by (induction n) simp_all

lemma huff_frequencies_value:
  assumes "256 < length (literalFreq w)"
  shows "huff_frequencies w input
         = Some (w\<lparr>literalFreq := (replicate (length (literalFreq w)) 0)[256 := 1],
                  offsetFreq := (if offsetFreq w = [] then [1] else (offsetFreq w)[0 := 1])\<rparr>)"
proof -
  let ?st = "\<lparr>cells = Map.empty(0 \<mapsto> map (\<lambda>_. Some (0::int)) (literalFreq w)), next_addr = Suc 0\<rparr>"
  have "cells (histogram ?st input 0) 0 = cells ?st 0"
    by (rule histogram_frame) simp
  then show ?thesis
    using assms
    by (simp add: huff_frequencies_def alloc_def those_replicate_Some END_BLOCK_MARKER_def
        map_replicate_const)
qed

lemma writeBlockHuff_literal_code:
  assumes "err w = None" and "256 < length (literalFreq w)"
  shows "writeBlockHuff w eof input
         = andThen
             (on_literalEncoding
                (w\<lparr>literalFreq := (replicate (length (literalFreq w)) 0)[256 := 1],
                   offsetFreq := (if offsetFreq w = [] then [1] else (offsetFreq w)[0 := 1])\<rparr>)
                (\<lambda>e. generate e ((replicate (length (literalFreq w)) 0)[256 := 1]) 15))
             (\<lambda>_ w2. huff_encode w2 eof input)"
  using assms by (simp add: writeBlockHuff_def huff_frequencies_value)

text \<open>
  Claim C10: \<open>histogram\<close> leaves every array that existed before the call, the
  caller's \<open>h\<close> among them, as it was (it increments the copy it allocates).  So the
  frequencies that \<open>writeBlockHuff\<close> collects do not depend on the input: they are 0
  everywhere but at symbol 256, where they are 1.  And \<open>writeBlockHuff\<close>, when \<open>err\<close> is
  not set, is: \<open>generate\<close> on the literal encoder with that table of frequencies and
  \<open>maxBits = 15\<close>, whatever the input bytes, followed by the rest of the method.
\<close>

theorem histogram_leaves_caller_array:
  "(\<forall>a<next_addr st. cells (histogram st b h) a = cells st a)
   \<and> (256 < length (literalFreq w) \<longrightarrow>
        huff_frequencies w input = huff_frequencies w []
        \<and> map_option literalFreq (huff_frequencies w input)
            = Some ((replicate (length (literalFreq w)) 0)[256 := 1]))
   \<and> (err w = None \<and> 256 < length (literalFreq w) \<longrightarrow>
        writeBlockHuff w eof input
        = andThen
            (on_literalEncoding
               (w\<lparr>literalFreq := (replicate (length (literalFreq w)) 0)[256 := 1],
                  offsetFreq := (if offsetFreq w = [] then [1] else (offsetFreq w)[0 := 1])\<rparr>)
               (\<lambda>e. generate e ((replicate (length (literalFreq w)) 0)[256 := 1]) 15))
            (\<lambda>_ w2. huff_encode w2 eof input))"
  by (simp add: histogram_frame huff_frequencies_value writeBlockHuff_literal_code)

text \<open>
  The same at a store that holds the array \<open>[7, 0, 0]\<close>, and at a new writer with the
  input \<open>[1, 1, 2]\<close>: there the literal code is generated from a table whose symbol 0
  has frequency 0, on a code table of undefined entries, and \<open>writeBlockHuff\<close> throws a
  TypeError.
\<close>

theorem histogram_leaves_caller_array_witness:
  "(0::nat) < next_addr (fst (alloc \<lparr>cells = Map.empty, next_addr = 0\<rparr> [Some 7, Some 0, Some 0]))
   \<and> cells (histogram (fst (alloc \<lparr>cells = Map.empty, next_addr = 0\<rparr> [Some 7, Some 0, Some 0])) [1, 1, 2] 0) 0
       = Some [Some 7, Some 0, Some 0]
   \<and> 256 < length (literalFreq (HuffmanBitWriter open_sink))
   \<and> map_option literalFreq (huff_frequencies (HuffmanBitWriter open_sink) [1, 1, 2])
       = Some ((replicate 286 0)[256 := 1])
   \<and> err (HuffmanBitWriter open_sink) = None
   \<and> (\<exists>w'. writeBlockHuff (HuffmanBitWriter open_sink) False [1, 1, 2] = Threw TypeError w'
          \<and> literalFreq w' = (replicate 286 0)[256 := 1]
          \<and> received (writer w') = [])"
proof -
  let ?st = "fst (alloc \<lparr>cells = Map.empty, next_addr = 0\<rparr> [Some 7, Some 0, Some 0])"
  let ?W = "HuffmanBitWriter open_sink"
  have a: "(0::nat) < next_addr ?st" by (simp add: alloc_def)
  have l: "256 < length (literalFreq ?W)" by (simp add: fresh_fields)
  have e: "err ?W = None" by (simp add: fresh_fields)
  from histogram_leaves_caller_array [of ?st "[1, 1, 2]" 0 ?W "[1, 1, 2]" False] a l e
  have r1: "cells (histogram ?st [1, 1, 2] 0) 0 = cells ?st 0"
    and r2: "map_option literalFreq (huff_frequencies ?W [1, 1, 2])
             = Some ((replicate (length (literalFreq ?W)) 0)[256 := 1])"
    and r3: "writeBlockHuff ?W False [1, 1, 2]
        = andThen
            (on_literalEncoding
               (?W\<lparr>literalFreq := (replicate (length (literalFreq ?W)) 0)[256 := 1],
                  offsetFreq := (if offsetFreq ?W = [] then [1] else (offsetFreq ?W)[0 := 1])\<rparr>)
               (\<lambda>e. generate e ((replicate (length (literalFreq ?W)) 0)[256 := 1]) 15))
            (\<lambda>_ w2. huff_encode w2 False [1, 1, 2])"
    by blast+
  have c: "cells ?st 0 = Some [Some 7, Some 0, Some 0]"
    by (simp add: alloc_def)
  have g: "generate (HuffmanEncoder 286) ((replicate 286 0)[256 := 1]) 15
           = Threw TypeError (HuffmanEncoder 286)"
    by (rule generate_first_undefined [where fs = "(replicate 285 0)[255 := 1]"])
       (simp_all add: replicate_update_Cons HuffmanEncoder_def js_get_def)
  have t0: "\<exists>w'. writeBlockHuff ?W False [1, 1, 2] = Threw TypeError w'
          \<and> literalFreq w' = (replicate 286 0)[256 := 1]
          \<and> writer w' = open_sink"
    by (simp add: r3 fresh_fields g on_literalEncoding_def andThen_def)
  then have t: "\<exists>w'. writeBlockHuff ?W False [1, 1, 2] = Threw TypeError w'
          \<and> literalFreq w' = (replicate 286 0)[256 := 1]
          \<and> received (writer w') = []"
    by (auto simp: open_sink_def)
  from r1 r2 c a l e t show ?thesis
    by (simp add: fresh_fields)
qed

end
